theory Spec2Isabelle
  imports Main "HOL-Library.Word" "HOL-Library.AList"
begin

unbundle bit_operations_syntax

section \<open>Basic types\<close>

type_synonym byte = "8 word"
type_synonym u16 = "16 word"
type_synonym u32 = "32 word"

section \<open>config: version strings\<close>

text \<open>
  Go strings are byte sequences; \<open>string\<close> (a list of 8-bit characters) holds the UTF-8
  bytes. The functions of the Go standard library that \<open>ParseVersion\<close> and
  \<open>FormatVersion\<close> call are written out from their documented behaviour.
\<close>

text \<open>
  \<open>unicode.IsSpace\<close>: the code points with the White_Space property, each as its UTF-8
  encoding: U+0009..U+000D, U+0020, U+0085, U+00A0, U+1680, U+2000..U+200A, U+2028,
  U+2029, U+202F, U+205F, U+3000.
\<close>

definition spaceRunes :: "string list" where
  "spaceRunes =
     [[CHR 0x09], [CHR 0x0A], [CHR 0x0B], [CHR 0x0C], [CHR 0x0D], [CHR 0x20],
      [CHR 0xC2, CHR 0x85], [CHR 0xC2, CHR 0xA0],
      [CHR 0xE1, CHR 0x9A, CHR 0x80],
      [CHR 0xE2, CHR 0x80, CHR 0x80], [CHR 0xE2, CHR 0x80, CHR 0x81],
      [CHR 0xE2, CHR 0x80, CHR 0x82], [CHR 0xE2, CHR 0x80, CHR 0x83],
      [CHR 0xE2, CHR 0x80, CHR 0x84], [CHR 0xE2, CHR 0x80, CHR 0x85],
      [CHR 0xE2, CHR 0x80, CHR 0x86], [CHR 0xE2, CHR 0x80, CHR 0x87],
      [CHR 0xE2, CHR 0x80, CHR 0x88], [CHR 0xE2, CHR 0x80, CHR 0x89],
      [CHR 0xE2, CHR 0x80, CHR 0x8A],
      [CHR 0xE2, CHR 0x80, CHR 0xA8], [CHR 0xE2, CHR 0x80, CHR 0xA9],
      [CHR 0xE2, CHR 0x80, CHR 0xAF],
      [CHR 0xE2, CHR 0x81, CHR 0x9F],
      [CHR 0xE3, CHR 0x80, CHR 0x80]]"

text \<open>The rest of \<open>s\<close> after the first rune of \<open>rs\<close> that \<open>s\<close> starts with, if any.\<close>

fun cutRune :: "string list \<Rightarrow> string \<Rightarrow> string option" where
  "cutRune [] s = None"
| "cutRune (r # rs) s =
     (if r \<noteq> [] \<and> take (length r) s = r then Some (drop (length r) s) else cutRune rs s)"

lemma cutRune_shorter: "cutRune rs s = Some t \<Longrightarrow> length t < length s"
proof (induction rs)
  case Nil
  then show ?case by simp
next
  case (Cons r rs)
  show ?case
  proof (cases "r \<noteq> [] \<and> take (length r) s = r")
    case True
    with Cons.prems have t: "t = drop (length r) s" by simp
    from True have le: "length r \<le> length s"
      by (metis length_take min.cobounded1)
    from True have pos: "0 < length r" by simp
    have "length s - length r < length s" using le pos by arith
    then show ?thesis using t by simp
  next
    case False
    with Cons show ?thesis by auto
  qed
qed

text \<open>\<open>strings.TrimLeftFunc(s, unicode.IsSpace)\<close>, generalised over the runes trimmed.\<close>

function trimLeftRunes :: "string list \<Rightarrow> string \<Rightarrow> string" where
  "trimLeftRunes rs s =
     (case cutRune rs s of None \<Rightarrow> s | Some t \<Rightarrow> trimLeftRunes rs t)"
  by pat_completeness auto
termination
  by (relation "measure (\<lambda>(rs, s). length s)") (auto dest: cutRune_shorter)

declare trimLeftRunes.simps [simp del]

text \<open>
  \<open>strings.TrimSpace\<close>: leading white space goes first, then trailing white space, which
  Go decodes backwards from the end of the string.
\<close>

definition TrimSpace :: "string \<Rightarrow> string" where
  "TrimSpace s = rev (trimLeftRunes (map rev spaceRunes) (rev (trimLeftRunes spaceRunes s)))"

text \<open>\<open>strings.CutPrefix\<close>.\<close>

definition CutPrefix :: "string \<Rightarrow> string \<Rightarrow> string \<times> bool" where
  "CutPrefix s p = (if take (length p) s = p then (drop (length p) s, True) else (s, False))"

text \<open>
  \<open>strconv.ParseUint(s, 10, 32)\<close>. The loop reads the bytes from the left and stops at the
  first failure: a byte that is not a decimal digit is a syntax error, a value beyond
  \<open>maxVal\<close> a range error. The accumulator is a 64-bit integer in Go; it never exceeds
  \<open>10 * maxVal + 9\<close> here, so \<open>nat\<close> holds it without wrap-around.
\<close>

datatype NumError = ErrSyntax | ErrRange

definition isDigit :: "char \<Rightarrow> bool" where
  "isDigit c = (48 \<le> (of_char c :: nat) \<and> (of_char c :: nat) \<le> 57)"

definition digitVal :: "char \<Rightarrow> nat" where
  "digitVal c = of_char c - 48"

definition maxVal :: nat where
  "maxVal = 2 ^ 32 - 1"

definition cutoff :: nat where
  "cutoff = (2 ^ 64 - 1) div 10 + 1"

fun parseDigits :: "nat \<Rightarrow> string \<Rightarrow> NumError + nat" where
  "parseDigits n [] = Inr n"
| "parseDigits n (c # cs) =
     (if \<not> isDigit c then Inl ErrSyntax
      else if n \<ge> cutoff then Inl ErrRange
      else if n * 10 + digitVal c > maxVal then Inl ErrRange
      else parseDigits (n * 10 + digitVal c) cs)"

definition ParseUint :: "string \<Rightarrow> NumError + nat" where
  "ParseUint s = (if s = [] then Inl ErrSyntax else parseDigits 0 s)"

text \<open>The error of \<open>ParseVersion\<close>: the string that failed to parse and the cause.\<close>

datatype VersionError = InvalidVersion string NumError

definition ParseVersion :: "string \<Rightarrow> VersionError + u32" where
  "ParseVersion s0 =
     (let s = TrimSpace s0;
          (after, found) = CutPrefix s ''1.'';
          s = (if found then after else s)
      in case ParseUint s of
           Inl err \<Rightarrow> Inl (InvalidVersion s err)
         | Inr v \<Rightarrow> Inr (of_nat v))"

text \<open>The verb \<open>%d\<close> of \<open>fmt.Sprintf\<close> on an unsigned integer: its decimal digits.\<close>

definition digitChar :: "nat \<Rightarrow> char" where
  "digitChar d = char_of (48 + d)"

function formatDec :: "nat \<Rightarrow> string" where
  "formatDec n =
     (if n < 10 then [digitChar n] else formatDec (n div 10) @ [digitChar (n mod 10)])"
  by pat_completeness auto
termination
  by (relation "measure id") auto

declare formatDec.simps [simp del]

definition FormatVersion :: "u32 \<Rightarrow> string" where
  "FormatVersion v = ''1.'' @ formatDec (unat v)"

section \<open>lan: control packets\<close>

definition byteShift8 :: nat where "byteShift8 = 8"
definition byteShift16 :: nat where "byteShift16 = 16"
definition byteShift24 :: nat where "byteShift24 = 24"

text \<open>The conversion \<open>byte(x)\<close> keeps the low eight bits.\<close>

definition byte :: "'a::len word \<Rightarrow> byte" where
  "byte x = ucast x"

text \<open>
  \<open>sendRefreshGame\<close> and \<open>sendDecreateGame\<close> build a packet and write it to the broadcast
  address. A failed write is logged and changes nothing else, so each function is
  modelled by the datagram it hands to \<open>WriteTo\<close>.
\<close>

definition sendRefreshGame :: "u32 \<Rightarrow> u32 \<Rightarrow> u32 \<Rightarrow> byte list" where
  "sendRefreshGame hostCounter slotsUsed slotsAvailable =
     [0xF7, 0x32, 0x10, 0x00,
      byte hostCounter, byte (drop_bit byteShift8 hostCounter),
      byte (drop_bit byteShift16 hostCounter), byte (drop_bit byteShift24 hostCounter),
      byte slotsUsed, byte (drop_bit byteShift8 slotsUsed),
      byte (drop_bit byteShift16 slotsUsed), byte (drop_bit byteShift24 slotsUsed),
      byte slotsAvailable, byte (drop_bit byteShift8 slotsAvailable),
      byte (drop_bit byteShift16 slotsAvailable), byte (drop_bit byteShift24 slotsAvailable)]"

definition sendDecreateGame :: "u32 \<Rightarrow> byte list" where
  "sendDecreateGame hostCounter =
     [0xF7, 0x33, 0x08, 0x00,
      byte hostCounter, byte (drop_bit byteShift8 hostCounter),
      byte (drop_bit byteShift16 hostCounter), byte (drop_bit byteShift24 hostCounter)]"

text \<open>
  The wire format in the words of the specification: an unsigned integer in little-endian
  is its base-256 digits, least significant first.
\<close>

definition le_bytes :: "nat \<Rightarrow> nat \<Rightarrow> byte list" where
  "le_bytes k n = map (\<lambda>i. of_nat (n div 256 ^ i mod 256)) [0..<k]"

section \<open>game: the data model\<close>

text \<open>
  \<open>netip.Addr\<close> is a value type of the standard library. The model identifies an address
  with its canonical text, which is what its method \<open>String\<close> returns.
\<close>

datatype Addr = Addr string

fun AddrString :: "Addr \<Rightarrow> string" where
  "AddrString (Addr s) = s"

text \<open>\<open>time.Time\<close> as nanoseconds; \<open>0\<close> is the zero value.\<close>

type_synonym Time = int

text \<open>
  \<open>w3gs.GameInfo\<close> is declared in the protocol library; these are the fields this
  repository reads.
\<close>

record GameInfo =
  GameName :: string
  HostCounter :: u32
  SlotsTotal :: u32
  SlotsUsed :: u32
  SlotsAvailable :: u32
  GamePort :: u16

text \<open>\<open>type Source string\<close> with its two constants.\<close>

type_synonym Source = string

definition SourceLocal :: Source where "SourceLocal = ''local''"
definition SourceRemote :: Source where "SourceRemote = ''remote''"

text \<open>
  References into the store. A \<open>[]byte\<close> in this program is \<open>nil\<close> or spans a whole backing
  array (\<open>make([]byte, n)\<close>), so a byte slice is \<open>None\<close> or the address of its array; the
  same holds for \<open>[]Game\<close>.
\<close>

type_synonym ref = nat

record Game =
  Info :: GameInfo
  RawData :: "ref option"
  Source :: Source
  PeerIP :: Addr
  PeerName :: string
  FirstSeen :: Time
  LastSeen :: Time

definition Key :: "Game \<Rightarrow> string" where
  "Key g =
     (if Source g = SourceLocal then ''local:'' @ GameName (Info g)
      else AddrString (PeerIP g) @ '':'' @ GameName (Info g))"

text \<open>\<open>time.Since(g.LastSeen) > timeout\<close>, the clock reading passed in.\<close>

definition IsStale :: "Time \<Rightarrow> int \<Rightarrow> Game \<Rightarrow> bool" where
  "IsStale now timeout g = (now - LastSeen g > timeout)"

section \<open>The store\<close>

text \<open>
  Three kinds of heap objects matter for sharing: the backing arrays of byte slices, the
  \<open>Game\<close> structs that a \<open>*Game\<close> points to, and the backing arrays of \<open>[]Game\<close> slices.
  An address is an index; allocation appends, so a new object never aliases an old one.
\<close>

record memory =
  byteArrays :: "byte list list"
  gameCells :: "Game list"
  gameArrays :: "Game list list"

definition newByteArray :: "byte list \<Rightarrow> memory \<Rightarrow> ref \<times> memory" where
  "newByteArray bs m = (length (byteArrays m), m\<lparr>byteArrays := byteArrays m @ [bs]\<rparr>)"

definition newGameCell :: "Game \<Rightarrow> memory \<Rightarrow> ref \<times> memory" where
  "newGameCell g m = (length (gameCells m), m\<lparr>gameCells := gameCells m @ [g]\<rparr>)"

definition newGameArray :: "Game list \<Rightarrow> memory \<Rightarrow> ref \<times> memory" where
  "newGameArray gs m = (length (gameArrays m), m\<lparr>gameArrays := gameArrays m @ [gs]\<rparr>)"

text \<open>The bytes and the length of a byte slice; \<open>len(nil) = 0\<close>.\<close>

definition sliceBytes :: "memory \<Rightarrow> ref option \<Rightarrow> byte list" where
  "sliceBytes m s = (case s of None \<Rightarrow> [] | Some a \<Rightarrow> byteArrays m ! a)"

definition sliceLen :: "memory \<Rightarrow> ref option \<Rightarrow> nat" where
  "sliceLen m s = length (sliceBytes m s)"

text \<open>The elements of a \<open>[]Game\<close>.\<close>

definition sliceGames :: "memory \<Rightarrow> ref option \<Rightarrow> Game list" where
  "sliceGames m s = (case s of None \<Rightarrow> [] | Some a \<Rightarrow> gameArrays m ! a)"

text \<open>The assignments \<open>data[i] = b\<close> on a byte array and \<open>games[i] = g\<close> on a game array.\<close>

definition storeByte :: "ref \<Rightarrow> nat \<Rightarrow> byte \<Rightarrow> memory \<Rightarrow> memory" where
  "storeByte a i b m = m\<lparr>byteArrays := (byteArrays m)[a := (byteArrays m ! a)[i := b]]\<rparr>"

definition storeGame :: "ref \<Rightarrow> nat \<Rightarrow> Game \<Rightarrow> memory \<Rightarrow> memory" where
  "storeGame a i g m = m\<lparr>gameArrays := (gameArrays m)[a := (gameArrays m ! a)[i := g]]\<rparr>"

text \<open>The assignment \<open>*p = g\<close> through a \<open>*Game\<close>.\<close>

definition storeCell :: "ref \<Rightarrow> Game \<Rightarrow> memory \<Rightarrow> memory" where
  "storeCell p g m = m\<lparr>gameCells := (gameCells m)[p := g]\<rparr>"

section \<open>game: the registry\<close>

text \<open>
  \<open>games map[string]*Game\<close> is an association list from keys to addresses of \<open>Game\<close>
  cells, with distinct keys; its order stands for the order in which \<open>range\<close> visits the
  map, which Go leaves unspecified. \<open>onChange\<close> records whether a callback is installed;
  the snapshot a mutator hands to the callback is returned with the mutator's result.
  The lock serialises the methods, so each one is a function on the registry and the
  store.
\<close>

record Registry =
  games :: "(string \<times> ref) list"
  onChange :: bool

definition NewRegistry :: "bool \<Rightarrow> Registry" where
  "NewRegistry cb = \<lparr>games = [], onChange = cb\<rparr>"

definition snapshot :: "Registry \<Rightarrow> memory \<Rightarrow> ref \<times> memory" where
  "snapshot r m = newGameArray (map (\<lambda>(key, p). gameCells m ! p) (games r)) m"

definition notify :: "Registry \<Rightarrow> memory \<Rightarrow> ref option \<times> memory" where
  "notify r m =
     (if onChange r then (let (s, m') = snapshot r m in (Some s, m')) else (None, m))"

text \<open>
  \<open>Add\<close> reads the clock twice, for \<open>FirstSeen\<close> and for \<open>LastSeen\<close>. The parameter
  \<open>game\<close> is a copy of the caller's struct; \<open>&game\<close> is a new cell. The result is the
  returned flag, the snapshot handed to the callback, the registry and the store.
\<close>

definition Add :: "Time \<Rightarrow> Time \<Rightarrow> Game \<Rightarrow> Registry \<Rightarrow> memory
    \<Rightarrow> bool \<times> ref option \<times> Registry \<times> memory" where
  "Add now1 now2 game r m =
     (let key = Key game;
          exists = (map_of (games r) key \<noteq> None);
          game = (if \<not> exists then game\<lparr>FirstSeen := now1\<rparr> else game);
          game = game\<lparr>LastSeen := now2\<rparr>;
          (p, m) = newGameCell game m;
          r = r\<lparr>games := AList.update key p (games r)\<rparr>;
          (cb, m) = notify r m
      in (\<not> exists, cb, r, m))"

definition Remove :: "string \<Rightarrow> Registry \<Rightarrow> memory
    \<Rightarrow> bool \<times> ref option \<times> Registry \<times> memory" where
  "Remove key r m =
     (if map_of (games r) key = None then (False, None, r, m)
      else let r = r\<lparr>games := AList.delete key (games r)\<rparr>;
               (cb, m) = notify r m
           in (True, cb, r, m))"

definition Games :: "Registry \<Rightarrow> memory \<Rightarrow> ref \<times> memory" where
  "Games r m = snapshot r m"

definition LocalGames :: "Registry \<Rightarrow> memory \<Rightarrow> ref \<times> memory" where
  "LocalGames r m =
     newGameArray (filter (\<lambda>g. Source g = SourceLocal)
                     (map (\<lambda>(key, p). gameCells m ! p) (games r))) m"

definition RemoteGames :: "Registry \<Rightarrow> memory \<Rightarrow> ref \<times> memory" where
  "RemoteGames r m =
     newGameArray (filter (\<lambda>g. Source g = SourceRemote)
                     (map (\<lambda>(key, p). gameCells m ! p) (games r))) m"

text \<open>
  \<open>FindByHostCounter\<close> returns the address of a new cell holding \<open>gameCopy\<close>, the struct
  copy of the first match in the order of the \<open>range\<close>, or \<open>nil\<close>.
\<close>

fun findMatch :: "u32 \<Rightarrow> memory \<Rightarrow> (string \<times> ref) list \<Rightarrow> Game option" where
  "findMatch hostCounter m [] = None"
| "findMatch hostCounter m ((key, p) # rest) =
     (let g = gameCells m ! p in
      if Source g = SourceRemote \<and> HostCounter (Info g) = hostCounter then Some g
      else findMatch hostCounter m rest)"

definition FindByHostCounter :: "u32 \<Rightarrow> Registry \<Rightarrow> memory \<Rightarrow> ref option \<times> memory" where
  "FindByHostCounter hostCounter r m =
     (case findMatch hostCounter m (games r) of
        None \<Rightarrow> (None, m)
      | Some gameCopy \<Rightarrow> (let (p, m') = newGameCell gameCopy m in (Some p, m')))"

definition Expire :: "Time \<Rightarrow> int \<Rightarrow> Registry \<Rightarrow> memory
    \<Rightarrow> nat \<times> ref option \<times> Registry \<times> memory" where
  "Expire now timeout r m =
     (let keep = filter (\<lambda>(key, p). \<not> IsStale now timeout (gameCells m ! p)) (games r);
          removed = length (games r) - length keep;
          r = r\<lparr>games := keep\<rparr>
      in if removed > 0 then (let (cb, m) = notify r m in (removed, cb, r, m))
         else (removed, None, r, m))"

text \<open>
  What a caller can observe of a game: the struct and the bytes its \<open>RawData\<close> refers to.
  \<open>readGames\<close> is what a call of \<open>Games\<close> lets the caller see, and likewise
  \<open>readLocalGames\<close>, \<open>readRemoteGames\<close> and \<open>readFind\<close> for \<open>LocalGames\<close>,
  \<open>RemoteGames\<close> and \<open>FindByHostCounter\<close>.
\<close>

definition observe :: "memory \<Rightarrow> Game \<Rightarrow> Game \<times> byte list" where
  "observe m g = (g, sliceBytes m (RawData g))"

definition readGames :: "Registry \<Rightarrow> memory \<Rightarrow> (Game \<times> byte list) list" where
  "readGames r m = (let (s, m') = Games r m in map (observe m') (gameArrays m' ! s))"

definition readLocalGames :: "Registry \<Rightarrow> memory \<Rightarrow> (Game \<times> byte list) list" where
  "readLocalGames r m =
     (let (s, m') = LocalGames r m in map (observe m') (gameArrays m' ! s))"

definition readRemoteGames :: "Registry \<Rightarrow> memory \<Rightarrow> (Game \<times> byte list) list" where
  "readRemoteGames r m =
     (let (s, m') = RemoteGames r m in map (observe m') (gameArrays m' ! s))"

definition readFind :: "u32 \<Rightarrow> Registry \<Rightarrow> memory \<Rightarrow> (Game \<times> byte list) option" where
  "readFind hostCounter r m =
     (let (p, m') = FindByHostCounter hostCounter r m
      in map_option (\<lambda>p. observe m' (gameCells m' ! p)) p)"

text \<open>The game stored under a key, read through the map's pointer.\<close>

definition lookupGame :: "Registry \<Rightarrow> memory \<Rightarrow> string \<Rightarrow> Game option" where
  "lookupGame r m key = map_option (\<lambda>p. gameCells m ! p) (map_of (games r) key)"

section \<open>A running example\<close>

text \<open>
  The game of the specification's first scenario, as \<open>handleGameInfo\<close> builds it: the
  fields \<open>FirstSeen\<close> and \<open>LastSeen\<close> are left at their zero value. Its six raw bytes
  stand for the announcement datagram; the last two are the port field. \<open>exampleState\<close>
  is the registry and the store after the game has been added once, at time 100.
\<close>

definition exampleGame :: Game where
  "exampleGame =
     \<lparr>Info = \<lparr>GameName = ''g1'', HostCounter = 7, SlotsTotal = 8, SlotsUsed = 1,
              SlotsAvailable = 7, GamePort = 6112\<rparr>,
      RawData = Some 0, Source = SourceRemote, PeerIP = Addr ''100.64.0.2'',
      PeerName = ''p1'', FirstSeen = 0, LastSeen = 0\<rparr>"

definition exampleMemory :: memory where
  "exampleMemory =
     \<lparr>byteArrays = [[0xF7, 0x30, 0x06, 0x00, 0xE0, 0x17]], gameCells = [], gameArrays = []\<rparr>"

definition exampleState :: "Registry \<times> memory" where
  "exampleState = snd (snd (Add 100 101 exampleGame (NewRegistry True) exampleMemory))"

text \<open>
  The example after a call of \<open>Games\<close>, and after a call of \<open>FindByHostCounter\<close> with
  the game's host counter.
\<close>

definition exampleSnapshot :: "ref \<times> memory" where
  "exampleSnapshot = Games (fst exampleState) (snd exampleState)"

definition exampleFound :: "ref option \<times> memory" where
  "exampleFound = FindByHostCounter 7 (fst exampleState) (snd exampleState)"

section \<open>lan: the broadcaster\<close>

definition minPacketSize :: nat where "minPacketSize = 4"
definition portFieldSize :: nat where "portFieldSize = 2"

text \<open>
  The broadcaster's state. \<open>games\<close> is the slice last handed to \<open>OnGamesChanged\<close> (the
  field is named \<open>games_Broadcaster\<close> here, the registry has a field \<open>games\<close> already);
  \<open>previousGameKeys\<close> is a Go map, written as the registry's map is. Every datagram goes
  to the one broadcast address, and a failed write is only logged, so what a function
  sends is the list of datagrams it hands to \<open>WriteTo\<close>, in order.
\<close>

record Broadcaster =
  games_Broadcaster :: "ref option"
  previousGameKeys :: "(string \<times> u32) list"
  proxyPort :: u16

definition NewBroadcaster :: "u16 \<Rightarrow> Broadcaster" where
  "NewBroadcaster port = \<lparr>games_Broadcaster = None, previousGameKeys = [], proxyPort = port\<rparr>"

definition OnGamesChanged :: "ref option \<Rightarrow> Broadcaster \<Rightarrow> Broadcaster" where
  "OnGamesChanged gs b = b\<lparr>games_Broadcaster := gs\<rparr>"

text \<open>The builtin \<open>copy(dst, src)\<close> on byte slices: as many bytes as both hold.\<close>

definition copyBytes :: "ref \<Rightarrow> byte list \<Rightarrow> memory \<Rightarrow> memory" where
  "copyBytes dst src m =
     (let d = byteArrays m ! dst; n = min (length d) (length src)
      in m\<lparr>byteArrays := (byteArrays m)[dst := take n src @ drop n d]\<rparr>)"

text \<open>
  \<open>sendRawGameInfo\<close>: nothing is sent for fewer than \<open>minPacketSize\<close> raw bytes. Otherwise
  \<open>data\<close> is a new array, the raw bytes are copied into it, its last two bytes are
  overwritten, and it is sent. Both indices are in range, since the length is at least 4.
\<close>

definition sendRawGameInfo :: "u16 \<Rightarrow> Game \<Rightarrow> memory \<Rightarrow> byte list list \<times> memory" where
  "sendRawGameInfo port g m =
     (if sliceLen m (RawData g) < minPacketSize then ([], m)
      else let (data, m1) = newByteArray (replicate (sliceLen m (RawData g)) 0) m;
               m2 = copyBytes data (sliceBytes m1 (RawData g)) m1;
               portIdx = length (byteArrays m2 ! data) - portFieldSize;
               m3 = storeByte data portIdx (byte port) m2;
               m4 = storeByte data (portIdx + 1) (byte (drop_bit byteShift8 port)) m3
           in ([byteArrays m4 ! data], m4))"

text \<open>
  The first loop of \<open>broadcastGames\<close>, over the games of the slice: the keys seen so far,
  the datagrams sent and the store. The loop allocates byte arrays only, so the games it
  reads are those the slice held when the tick began.
\<close>

fun announceGames :: "u16 \<Rightarrow> Game list \<Rightarrow> (string \<times> u32) list \<Rightarrow> memory
    \<Rightarrow> (string \<times> u32) list \<times> byte list list \<times> memory" where
  "announceGames port [] currentKeys m = (currentKeys, [], m)"
| "announceGames port (g # gs) currentKeys m =
     (if Source g \<noteq> SourceRemote then announceGames port gs currentKeys m
      else let currentKeys1 = AList.update (Key g) (HostCounter (Info g)) currentKeys;
               (out1, m1) = sendRawGameInfo port g m;
               out2 = [sendRefreshGame (HostCounter (Info g)) (SlotsUsed (Info g))
                         (SlotsAvailable (Info g))];
               (currentKeys2, out3, m2) = announceGames port gs currentKeys1 m1
           in (currentKeys2, out1 @ out2 @ out3, m2))"

text \<open>The second loop: a \<open>DecreateGame\<close> for each previous key that is not a current key.\<close>

definition cancelGames :: "(string \<times> u32) list \<Rightarrow> (string \<times> u32) list \<Rightarrow> byte list list" where
  "cancelGames previous currentKeys =
     concat (map (\<lambda>(key, hostCounter).
                    if map_of currentKeys key = None then [sendDecreateGame hostCounter] else [])
               previous)"

definition broadcastGames :: "Broadcaster \<Rightarrow> memory \<Rightarrow> byte list list \<times> Broadcaster \<times> memory" where
  "broadcastGames b m =
     (let (currentKeys, out1, m1) =
            announceGames (proxyPort b) (sliceGames m (games_Broadcaster b)) [] m;
          out2 = cancelGames (previousGameKeys b) currentKeys
      in (out1 @ out2, b\<lparr>previousGameKeys := currentKeys\<rparr>, m1))"

text \<open>\<open>safeUint16\<close> of the supervisor, which turns the proxy's port into \<open>proxyPort\<close>.\<close>

definition safeUint16 :: "int \<Rightarrow> u16" where
  "safeUint16 n = (if n < 0 then 0 else if n > 65535 then 65535 else of_int n)"

text \<open>
  A byte slice held by the program refers to an allocated array: Go has no dangling
  references.
\<close>

definition validBytes :: "memory \<Rightarrow> ref option \<Rightarrow> bool" where
  "validBytes m s = (case s of None \<Rightarrow> True | Some a \<Rightarrow> a < length (byteArrays m))"

text \<open>
  The cancellations in the words of the specification. The current remote-game set of a
  tick is the Remote games of the slice; \<open>removed = prev \ current\<close> lists the keys of the
  previous tick that are not keys of a current Remote game.
\<close>

definition remoteGames :: "Game list \<Rightarrow> Game list" where
  "remoteGames gs = filter (\<lambda>g. Source g = SourceRemote) gs"

definition removedKeys :: "Broadcaster \<Rightarrow> memory \<Rightarrow> string list" where
  "removedKeys b m =
     filter (\<lambda>key. key \<notin> set (map Key (remoteGames (sliceGames m (games_Broadcaster b)))))
       (map fst (previousGameKeys b))"

text \<open>
  A broadcaster that announced two games on its last tick and now holds the example's
  snapshot, in which only the first of them is left.
\<close>

definition exampleBroadcaster :: Broadcaster where
  "exampleBroadcaster =
     \<lparr>games_Broadcaster = Some 0,
      previousGameKeys = [(''100.64.0.2:g1'', 7), (''100.64.0.3:g2'', 9)],
      proxyPort = 0x1234\<rparr>"

section \<open>proxy: the TCP join proxy\<close>

definition maxJoinPacketSize :: nat where "maxJoinPacketSize = 512"

text \<open>
  What \<open>w3gs.Deserialize\<close> returns, as far as the proxy looks at it: a \<open>Join\<close> with its
  host counter and player name, or some other packet. The decoder belongs to the protocol
  library and is a parameter of the model; \<open>None\<close> is its error.
\<close>

datatype Packet = Join u32 string | OtherPacket

datatype ProxyError =
  ErrSetReadDeadline | ErrReadPacket | ErrClearReadDeadline | ErrDeserialize
  | ErrUnexpectedPacketType

text \<open>
  The outcomes of the I/O calls one connection makes: whether setting and clearing the
  read deadline fail, the bytes the first \<open>Read\<close> delivers (\<open>None\<close>: it fails, as on a
  timeout), and whether dialling the origin and writing to it fail.
\<close>

record ConnEnv =
  setDeadlineErr :: bool
  firstRead :: "byte list option"
  clearDeadlineErr :: bool
  dialErr :: bool
  writeErr :: bool

text \<open>
  What a connection handler does, in order: its log lines with their level, the calls on
  the client connection, the dial (host and port), the write to the origin with its
  bytes, the relay, and the closes.
\<close>

datatype LogLevel = LevelDebug | LevelInfo | LevelWarn | LevelError

datatype Event =
    Log LogLevel string
  | SetReadDeadline
  | ReadClient
  | ClearReadDeadline
  | Dial string u16
  | WriteRemote "byte list"
  | Relay
  | CloseRemote
  | CloseClient

text \<open>
  \<open>readJoinPacket\<close>. \<open>Read\<close> fills a buffer of \<open>maxJoinPacketSize\<close> bytes and returns how
  many it stored; \<open>initialPacket = buf[:n]\<close> is what it stored, at most that many of the
  bytes delivered.
\<close>

definition readJoinPacket :: "(byte list \<Rightarrow> Packet option) \<Rightarrow> ConnEnv
    \<Rightarrow> (ProxyError + u32 \<times> string \<times> byte list) \<times> Event list" where
  "readJoinPacket Deserialize env =
     (if setDeadlineErr env then (Inl ErrSetReadDeadline, [SetReadDeadline])
      else case firstRead env of
        None \<Rightarrow> (Inl ErrReadPacket, [SetReadDeadline, ReadClient])
      | Some delivered \<Rightarrow>
          if clearDeadlineErr env
          then (Inl ErrClearReadDeadline, [SetReadDeadline, ReadClient, ClearReadDeadline])
          else let initialPacket = take maxJoinPacketSize delivered;
                   io = [SetReadDeadline, ReadClient, ClearReadDeadline]
               in case Deserialize initialPacket of
                    None \<Rightarrow> (Inl ErrDeserialize, io)
                  | Some OtherPacket \<Rightarrow> (Inl ErrUnexpectedPacketType, io)
                  | Some (Join hostCounter playerName) \<Rightarrow>
                      (Inr (hostCounter, playerName, initialPacket),
                       io @ [Log LevelDebug ''received Join packet'']))"

text \<open>
  \<open>handleConnection\<close>, with \<open>connectToRemote\<close> written in: the events of the handler and
  the store (\<open>FindByHostCounter\<close> and \<open>Games\<close> allocate). The deferred closes run last,
  the origin's before the client's.
\<close>

definition handleConnection :: "(byte list \<Rightarrow> Packet option) \<Rightarrow> ConnEnv \<Rightarrow> Registry
    \<Rightarrow> memory \<Rightarrow> Event list \<times> memory" where
  "handleConnection Deserialize env r m =
     (let t0 = [Log LevelInfo ''received TCP connection''] in
      case readJoinPacket Deserialize env of
        (Inl err, io) \<Rightarrow>
          (t0 @ io @ [Log LevelError ''failed to read Join packet'', CloseClient], m)
      | (Inr (hostCounter, playerName, initialPacket), io) \<Rightarrow>
          let t1 = t0 @ io @ [Log LevelInfo ''parsed Join packet''];
              (remoteGame, m1) = FindByHostCounter hostCounter r m
          in case remoteGame of
               None \<Rightarrow>
                 let (allGames, m2) = Games r m1
                 in (t1 @ map (\<lambda>g. Log LevelInfo ''registry game'') (gameArrays m2 ! allGames)
                        @ [Log LevelWarn ''no remote game found for HostCounter'', CloseClient],
                     m2)
             | Some p \<Rightarrow>
                 let g = gameCells m1 ! p;
                     t2 = t1 @ [Log LevelInfo ''found remote game'',
                                Dial (AddrString (PeerIP g)) (GamePort (Info g))]
                 in if dialErr env
                    then (t2 @ [Log LevelError ''failed to connect to remote game'', CloseClient],
                          m1)
                    else let t3 = t2 @ [Log LevelInfo ''proxying connection'',
                                        WriteRemote initialPacket]
                         in if writeErr env
                            then (t3 @ [Log LevelError ''failed to forward Join packet'',
                                        CloseRemote, CloseClient], m1)
                            else (t3 @ [Relay, CloseRemote, CloseClient], m1))"

text \<open>The byte sequences written to the origin, in order.\<close>

fun remoteWrites :: "Event list \<Rightarrow> byte list list" where
  "remoteWrites [] = []"
| "remoteWrites (WriteRemote bs # es) = bs # remoteWrites es"
| "remoteWrites (e # es) = remoteWrites es"

text \<open>Whether an event reaches out to an origin or relays: a dial, a write or the relay.\<close>

fun isOutbound :: "Event \<Rightarrow> bool" where
  "isOutbound (Dial host port) = True"
| "isOutbound (WriteRemote bs) = True"
| "isOutbound Relay = True"
| "isOutbound e = False"

section \<open>peer: the probe engine\<close>

definition DefaultPort :: nat where "DefaultPort = 6112"

text \<open>
  \<open>w3gs.GameVersion\<close> and \<open>w3gs.SearchGame\<close> of the protocol library, and the peers of
  the overlay adapter. A query is sent by \<open>Send(addr, pkt)\<close>; a failed send is only
  logged, so a probe is the list of queries it sends, in order.
\<close>

record GameVersion =
  Product :: u32
  Version :: u32

datatype SearchGame = SearchGame GameVersion u32

record Peer =
  Name :: string
  IP :: Addr
  Online :: bool
  OS :: string

datatype UDPAddr = UDPAddr Addr nat

datatype Sent = Send UDPAddr SearchGame

record Manager =
  version :: GameVersion
  peers :: "Peer list"

definition SetVersion :: "GameVersion \<Rightarrow> Manager \<Rightarrow> Manager" where
  "SetVersion v mgr = mgr\<lparr>version := v\<rparr>"

definition probeLocal :: "GameVersion \<Rightarrow> Sent list" where
  "probeLocal v = [Send (UDPAddr (Addr ''127.0.0.1'') DefaultPort) (SearchGame v 0)]"

definition probePeer :: "Addr \<Rightarrow> GameVersion \<Rightarrow> Sent list" where
  "probePeer peerIP v = [Send (UDPAddr peerIP DefaultPort) (SearchGame v 0)]"

definition probeAllPeers :: "Manager \<Rightarrow> Sent list" where
  "probeAllPeers mgr =
     (let ps = peers mgr; v = version mgr
      in if Version v = 0 then []
         else probeLocal v
              @ concat (map (\<lambda>peer. if Online peer then probePeer (IP peer) v else []) ps))"

definition Refresh :: "Manager \<Rightarrow> Sent list" where
  "Refresh mgr = probeAllPeers mgr"

definition OnPeersChanged :: "Peer list \<Rightarrow> Manager \<Rightarrow> Manager \<times> Sent list" where
  "OnPeersChanged ps mgr = (let mgr' = mgr\<lparr>peers := ps\<rparr> in (mgr', probeAllPeers mgr'))"

text \<open>One tick of the ticker in \<open>Run\<close>.\<close>

definition probeTick :: "Manager \<Rightarrow> Sent list" where
  "probeTick mgr = probeAllPeers mgr"

section \<open>Examples for the proxy and the probe engine\<close>

text \<open>
  A decoder for the examples: it accepts a packet that starts with F7 1E (the opcode of a
  \<open>Join\<close>) and has at least eight bytes, and reads the host counter from bytes 4 to 7 in
  little-endian; any other packet that starts with F7 is some other packet.
\<close>

definition le_nat :: "byte list \<Rightarrow> nat" where
  "le_nat bs = foldr (\<lambda>b n. unat b + 256 * n) bs 0"

definition exampleDeserialize :: "byte list \<Rightarrow> Packet option" where
  "exampleDeserialize bs =
     (if 8 \<le> length bs \<and> take 2 bs = [0xF7, 0x1E]
      then Some (Join (of_nat (le_nat (take 4 (drop 4 bs)))) '''')
      else if take 1 bs = [0xF7] then Some OtherPacket else None)"

text \<open>A client that sends a \<open>Join\<close> with the given host counter, and an origin that answers.\<close>

definition exampleEnv :: "byte \<Rightarrow> ConnEnv" where
  "exampleEnv hc =
     \<lparr>setDeadlineErr = False,
      firstRead = Some [0xF7, 0x1E, 0x08, 0x00, hc, 0x00, 0x00, 0x00],
      clearDeadlineErr = False, dialErr = False, writeErr = False\<rparr>"

text \<open>A probe engine with one peer online and one offline.\<close>

definition exampleManager :: Manager where
  "exampleManager =
     \<lparr>version = \<lparr>Product = 0x57335850, Version = 0\<rparr>,
      peers = [\<lparr>Name = ''p1'', IP = Addr ''100.64.0.2'', Online = True, OS = ''windows''\<rparr>,
               \<lparr>Name = ''p2'', IP = Addr ''100.64.0.3'', Online = False, OS = ''linux''\<rparr>]\<rparr>"

section \<open>Version strings: parsing inverts formatting\<close>

lemma digitChar_isDigit: "d < 10 \<Longrightarrow> isDigit (digitChar d)"
  by (simp add: isDigit_def digitChar_def)

lemma digitVal_digitChar: "d < 10 \<Longrightarrow> digitVal (digitChar d) = d"
  by (simp add: digitVal_def digitChar_def)

lemma maxVal_less_cutoff: "n \<le> maxVal \<Longrightarrow> n < cutoff"
  by (simp add: maxVal_def cutoff_def)

lemma formatDec_digits: "list_all isDigit (formatDec n) \<and> formatDec n \<noteq> []"
proof (induction n rule: formatDec.induct)
  case (1 n)
  show ?case
  proof (cases "n < 10")
    case True
    then show ?thesis by (simp add: formatDec.simps [of n] digitChar_isDigit)
  next
    case False
    with 1 show ?thesis by (simp add: formatDec.simps [of n] digitChar_isDigit)
  qed
qed

lemma parseDigits_snoc:
  "parseDigits a s = Inr v \<Longrightarrow> d < 10 \<Longrightarrow> v * 10 + d \<le> maxVal
   \<Longrightarrow> parseDigits a (s @ [digitChar d]) = Inr (v * 10 + d)"
proof (induction s arbitrary: a)
  case Nil
  then have "a < cutoff" by (intro maxVal_less_cutoff) simp
  with Nil show ?case by (simp add: digitChar_isDigit digitVal_digitChar)
next
  case (Cons c cs)
  then show ?case by (simp split: if_splits)
qed

lemma parseDigits_formatDec: "n \<le> maxVal \<Longrightarrow> parseDigits 0 (formatDec n) = Inr n"
proof (induction n rule: formatDec.induct)
  case (1 n)
  show ?case
  proof (cases "n < 10")
    case True
    then have "parseDigits 0 ([] @ [digitChar n]) = Inr (0 * 10 + n)"
      using 1(2) by (intro parseDigits_snoc) simp_all
    with True show ?thesis by (simp add: formatDec.simps [of n])
  next
    case False
    with 1 have ih: "parseDigits 0 (formatDec (n div 10)) = Inr (n div 10)" by simp
    have "parseDigits 0 (formatDec (n div 10) @ [digitChar (n mod 10)])
          = Inr (n div 10 * 10 + n mod 10)"
      using 1(2) by (intro parseDigits_snoc [OF ih]) simp_all
    with False show ?thesis by (simp add: formatDec.simps [of n])
  qed
qed

lemma cutRune_None: "c \<notin> set (map hd rs) \<Longrightarrow> cutRune rs (c # cs) = None"
proof (induction rs)
  case Nil
  then show ?case by simp
next
  case (Cons r rs)
  then have "r \<noteq> [] \<Longrightarrow> take (length r) (c # cs) \<noteq> r"
    by (cases r) auto
  with Cons show ?case by auto
qed

lemma spaceRunes_first: "c \<in> set (map hd spaceRunes) \<Longrightarrow> \<not> isDigit c"
  unfolding spaceRunes_def isDigit_def by (simp, elim disjE) simp_all

lemma spaceRunes_last: "c \<in> set (map hd (map rev spaceRunes)) \<Longrightarrow> \<not> isDigit c"
  unfolding spaceRunes_def isDigit_def by (simp, elim disjE) simp_all


lemma trimLeftRunes_id: "cutRune rs s = None \<Longrightarrow> trimLeftRunes rs s = s"
  by (simp add: trimLeftRunes.simps [of rs s])

lemma TrimSpace_digits:
  assumes "s \<noteq> []" "isDigit (hd s)" "isDigit (last s)"
  shows "TrimSpace s = s"
proof -
  from assms obtain c cs where s: "s = c # cs" and c: "isDigit c" by (cases s) auto
  have "cutRune spaceRunes (c # cs) = None"
    using c spaceRunes_first by (intro cutRune_None) blast
  then have 1: "trimLeftRunes spaceRunes s = s" by (simp add: s trimLeftRunes_id)
  from assms obtain d ds where r: "rev s = d # ds" and d: "isDigit d"
    by (cases "rev s") (auto simp: last_rev [symmetric] simp del: last_rev)
  have "cutRune (map rev spaceRunes) (d # ds) = None"
    using d spaceRunes_last by (intro cutRune_None) blast
  then have 2: "trimLeftRunes (map rev spaceRunes) (rev s) = rev s" by (simp add: r trimLeftRunes_id)
  show ?thesis by (simp add: TrimSpace_def 1 2)
qed

lemma CutPrefix_formatDec: "CutPrefix (formatDec n) ''1.'' = (formatDec n, False)"
proof -
  have ne: "take (length ''1.'') (formatDec n) \<noteq> ''1.''"
  proof
    assume a: "take (length ''1.'') (formatDec n) = ''1.''"
    have "CHR ''.'' \<in> set (take (length ''1.'') (formatDec n))"
      unfolding a by simp
    then have "CHR ''.'' \<in> set (formatDec n)" by (rule in_set_takeD)
    with formatDec_digits [of n] have "isDigit CHR ''.''" by (simp add: list_all_iff)
    then show False by (simp add: isDigit_def)
  qed
  show ?thesis unfolding CutPrefix_def using ne by (simp only: if_False)
qed

lemma CutPrefix_dotted: "CutPrefix (CHR ''1'' # CHR ''.'' # s) ''1.'' = (s, True)"
  by (simp add: CutPrefix_def)

lemma formatDec_ends: "isDigit (hd (formatDec n)) \<and> isDigit (last (formatDec n))"
  using formatDec_digits [of n] by (cases "formatDec n") (auto simp: list_all_iff)

lemma ParseUint_formatDec: "n \<le> maxVal \<Longrightarrow> ParseUint (formatDec n) = Inr n"
  using formatDec_digits [of n] by (simp add: ParseUint_def parseDigits_formatDec)

lemma unat_le_maxVal: "unat (v::u32) \<le> maxVal"
  using unsigned_less [of v, where ?'a = nat] by (simp add: maxVal_def)

text \<open>
  Claim C10. For every 32-bit \<open>v\<close>, \<open>ParseVersion\<close> succeeds with exactly \<open>v\<close> on
  \<open>FormatVersion v\<close>, that is on the decimal string of \<open>v\<close> prefixed with \<open>1.\<close>, and on
  the plain decimal string of \<open>v\<close>.
\<close>

theorem ParseVersion_FormatVersion:
  "ParseVersion (FormatVersion v) = Inr v \<and> ParseVersion (formatDec (unat v)) = Inr v"
proof -
  let ?d = "formatDec (unat v)"
  have d: "?d \<noteq> []" "isDigit (hd ?d)" "isDigit (last ?d)"
    using formatDec_digits [of "unat v"] formatDec_ends [of "unat v"] by simp_all
  have t1: "TrimSpace ?d = ?d" using d by (rule TrimSpace_digits)
  have "isDigit (hd (''1.'' @ ?d))" by (simp add: isDigit_def)
  moreover have "isDigit (last (''1.'' @ ?d))" using d by simp
  ultimately have t2: "TrimSpace (''1.'' @ ?d) = ''1.'' @ ?d"
    by (intro TrimSpace_digits) simp_all
  have p: "ParseUint ?d = Inr (unat v)"
    by (rule ParseUint_formatDec) (rule unat_le_maxVal)
  have t2': "TrimSpace (CHR ''1'' # CHR ''.'' # ?d) = CHR ''1'' # CHR ''.'' # ?d"
    using t2 by simp
  have a: "ParseVersion (FormatVersion v) = Inr v"
    by (simp add: ParseVersion_def FormatVersion_def Let_def t2' CutPrefix_dotted p)
  have b: "ParseVersion ?d = Inr v"
    by (simp add: ParseVersion_def Let_def t1 CutPrefix_formatDec p)
  show ?thesis using a b by simp
qed

theorem ParseVersion_FormatVersion_example:
  "ParseVersion (FormatVersion 26) = Inr 26 \<and> ParseVersion (formatDec (unat (26::u32))) = Inr 26"
  using ParseVersion_FormatVersion [of 26] by simp

section \<open>Control packets on the wire\<close>

lemma unat_byte_drop_bit:
  "unat (byte (drop_bit k (w::'a::len word))) = unat w div 2 ^ k mod 256"
  unfolding byte_def
  by (simp add: unsigned_ucast_eq unat_drop_bit_eq take_bit_nat_def drop_bit_nat_def)

lemma byte_drop_bit:
  "byte (drop_bit k (w::'a::len word)) = of_nat (unat w div 2 ^ k mod 256)"
  by (simp add: word_unat_eq_iff unat_byte_drop_bit unat_of_nat)

lemma byte_low: "byte (w::'a::len word) = of_nat (unat w mod 256)"
  using byte_drop_bit [of 0 w] by simp

lemma length_le_bytes: "length (le_bytes k n) = k"
  by (simp add: le_bytes_def)

lemma upt_0_4: "[0..<4] = [0, 1, 2, 3::nat]"
  by (simp add: eval_nat_numeral)

lemma le_bytes_4:
  "le_bytes 4 n = [of_nat (n mod 256), of_nat (n div 2 ^ 8 mod 256),
                   of_nat (n div 2 ^ 16 mod 256), of_nat (n div 2 ^ 24 mod 256)]"
  unfolding le_bytes_def upt_0_4 by simp

lemma le32:
  "[byte w, byte (drop_bit byteShift8 w), byte (drop_bit byteShift16 w),
    byte (drop_bit byteShift24 w)] = le_bytes 4 (unat (w::u32))"
  unfolding le_bytes_4 byteShift8_def byteShift16_def byteShift24_def byte_drop_bit
  by (simp only: byte_low)

text \<open>
  Claim C8. Every RefreshGame packet is exactly the 16 bytes F7 32 10 00 followed by
  hostCounter, slotsUsed and slotsAvailable, each as four bytes in little-endian; every
  DecreateGame packet is exactly the 8 bytes F7 33 08 00 followed by hostCounter as four
  bytes in little-endian.
\<close>

theorem control_packets_wire_format:
  "sendRefreshGame hc su sa
     = [0xF7, 0x32, 0x10, 0x00] @ le_bytes 4 (unat hc) @ le_bytes 4 (unat su) @ le_bytes 4 (unat sa)
   \<and> length (sendRefreshGame hc su sa) = 16
   \<and> sendDecreateGame hc = [0xF7, 0x33, 0x08, 0x00] @ le_bytes 4 (unat hc)
   \<and> length (sendDecreateGame hc) = 8"
proof -
  have r: "sendRefreshGame hc su sa
     = [0xF7, 0x32, 0x10, 0x00] @ le_bytes 4 (unat hc) @ le_bytes 4 (unat su) @ le_bytes 4 (unat sa)"
    unfolding le32 [symmetric] by (simp add: sendRefreshGame_def)
  have d: "sendDecreateGame hc = [0xF7, 0x33, 0x08, 0x00] @ le_bytes 4 (unat hc)"
    unfolding le32 [symmetric] by (simp add: sendDecreateGame_def)
  have lr: "length (sendRefreshGame hc su sa) = 16" by (simp add: sendRefreshGame_def)
  have ld: "length (sendDecreateGame hc) = 8" by (simp add: sendDecreateGame_def)
  show ?thesis using r d lr ld by blast
qed

section \<open>The registry\<close>

lemma notify_cells: "notify r m = (cb, m') \<Longrightarrow> gameCells m' = gameCells m \<and> byteArrays m' = byteArrays m"
  by (auto simp: notify_def snapshot_def newGameArray_def split: if_splits)

lemma Add_flag: "fst (Add now1 now2 g r m) = (map_of (games r) (Key g) = None)"
  by (simp add: Add_def Let_def split: prod.splits)

lemma Add_stored:
  assumes "Add now1 now2 g r m = (new, cb, r', m')"
  shows "lookupGame r' m' (Key g)
         = Some (g\<lparr>FirstSeen := (if new then now1 else FirstSeen g), LastSeen := now2\<rparr>)"
proof -
  let ?g = "(if map_of (games r) (Key g) = None then g\<lparr>FirstSeen := now1\<rparr> else g)\<lparr>LastSeen := now2\<rparr>"
  let ?m1 = "m\<lparr>gameCells := gameCells m @ [?g]\<rparr>"
  let ?r1 = "r\<lparr>games := AList.update (Key g) (length (gameCells m)) (games r)\<rparr>"
  from assms have new: "new = (map_of (games r) (Key g) = None)" and r': "r' = ?r1"
    and n: "notify ?r1 ?m1 = (cb, m')"
    by (auto simp: Add_def Let_def newGameCell_def split: prod.splits)
  from notify_cells [OF n] have "gameCells m' = gameCells m @ [?g]" by simp
  then show ?thesis
    by (simp add: lookupGame_def r' new update_conv')
qed



lemma exampleState_eq:
  "exampleState =
     (\<lparr>games = [(''100.64.0.2:g1'', 0)], onChange = True\<rparr>,
      \<lparr>byteArrays = [[0xF7, 0x30, 0x06, 0x00, 0xE0, 0x17]],
       gameCells = [exampleGame\<lparr>FirstSeen := 100, LastSeen := 101\<rparr>],
       gameArrays = [[exampleGame\<lparr>FirstSeen := 100, LastSeen := 101\<rparr>]]\<rparr>)"
  by (simp add: exampleState_def Add_def Let_def NewRegistry_def exampleMemory_def
      newGameCell_def notify_def snapshot_def newGameArray_def Key_def exampleGame_def
      SourceLocal_def SourceRemote_def)

text \<open>
  Claim C1, at an input the probe engine produces: the same game added twice, at times
  100 and 200. The first call returns true and stores \<open>FirstSeen = 100\<close>; the second
  returns false and stores the argument's own \<open>FirstSeen\<close>, the zero time: the time
  recorded at the first insertion is lost.
\<close>

theorem Add_refresh_overwrites_FirstSeen:
  "fst (Add 100 101 exampleGame (NewRegistry True) exampleMemory) = True
   \<and> map_option FirstSeen (lookupGame (fst exampleState) (snd exampleState) (Key exampleGame))
       = Some 100
   \<and> fst (Add 200 201 exampleGame (fst exampleState) (snd exampleState)) = False
   \<and> map_option FirstSeen
        (lookupGame (fst (snd (snd (Add 200 201 exampleGame (fst exampleState) (snd exampleState)))))
                    (snd (snd (snd (Add 200 201 exampleGame (fst exampleState) (snd exampleState)))))
                    (Key exampleGame))
       = Some 0"
proof -
  have k: "Key exampleGame = ''100.64.0.2:g1''"
    by (simp add: Key_def exampleGame_def SourceLocal_def SourceRemote_def)
  have 1: "fst (Add 100 101 exampleGame (NewRegistry True) exampleMemory) = True"
    by (simp add: Add_flag NewRegistry_def)
  have 2: "map_option FirstSeen (lookupGame (fst exampleState) (snd exampleState) (Key exampleGame)) = Some 100"
    by (simp add: k exampleState_eq lookupGame_def)
  have 3: "fst (Add 200 201 exampleGame (fst exampleState) (snd exampleState)) = False"
    by (simp add: Add_flag k exampleState_eq)
  obtain new cb r' m' where a: "Add 200 201 exampleGame (fst exampleState) (snd exampleState) = (new, cb, r', m')"
    by (cases "Add 200 201 exampleGame (fst exampleState) (snd exampleState)") auto
  with 3 have "\<not> new" by simp
  with Add_stored [OF a] have 4: "map_option FirstSeen (lookupGame r' m' (Key exampleGame)) = Some 0"
    by (simp add: exampleGame_def)
  show ?thesis using 1 2 3 4 by (simp add: a)
qed

lemma sliceBytes_frame [simp]:
  "sliceBytes (m\<lparr>gameArrays := ga\<rparr>) s = sliceBytes m s"
  "sliceBytes (m\<lparr>gameCells := gc\<rparr>) s = sliceBytes m s"
  by (simp_all add: sliceBytes_def split: option.splits)

lemma readGames_eq:
  "readGames r m = map (\<lambda>(key, p). observe m (gameCells m ! p)) (games r)"
  by (simp add: readGames_def Games_def snapshot_def newGameArray_def observe_def
      split_def comp_def)

lemma findMatch_cells:
  "gameCells m1 = gameCells m2 \<Longrightarrow> findMatch hc m1 xs = findMatch hc m2 xs"
  by (induction xs) (auto simp: Let_def)

lemma readFind_eq: "readFind hc r m = map_option (observe m) (findMatch hc m (games r))"
  by (cases "findMatch hc m (games r)")
     (simp_all add: readFind_def FindByHostCounter_def newGameCell_def observe_def)

lemma storeGame_frame [simp]:
  "gameCells (storeGame a i g m) = gameCells m"
  "byteArrays (storeGame a i g m) = byteArrays m"
  by (simp_all add: storeGame_def)

lemma fold_storeGame_frame:
  "gameCells (fold (\<lambda>(a, i, g). storeGame a i g) muts m) = gameCells m
   \<and> byteArrays (fold (\<lambda>(a, i, g). storeGame a i g) muts m) = byteArrays m"
  by (induction muts arbitrary: m) (auto simp: split_def)

lemma observe_frame: "byteArrays m1 = byteArrays m2 \<Longrightarrow> observe m1 g = observe m2 g"
  by (simp add: observe_def sliceBytes_def split: option.splits)

lemma readGames_frame:
  "gameCells m1 = gameCells m2 \<Longrightarrow> byteArrays m1 = byteArrays m2
   \<Longrightarrow> readGames r m1 = readGames r m2"
  by (simp add: readGames_eq observe_frame [of m1 m2])

lemma readFind_frame:
  "gameCells m1 = gameCells m2 \<Longrightarrow> byteArrays m1 = byteArrays m2
   \<Longrightarrow> readFind hc r m1 = readFind hc r m2"
  by (simp add: readFind_eq observe_frame [of m1 m2] findMatch_cells [of m1 m2] cong: map_option_cong)

lemma readLocalGames_eq:
  "readLocalGames r m
   = map (observe m) (filter (\<lambda>g. Source g = SourceLocal)
                        (map (\<lambda>(key, p). gameCells m ! p) (games r)))"
  by (simp add: readLocalGames_def LocalGames_def newGameArray_def observe_def)

lemma readRemoteGames_eq:
  "readRemoteGames r m
   = map (observe m) (filter (\<lambda>g. Source g = SourceRemote)
                        (map (\<lambda>(key, p). gameCells m ! p) (games r)))"
  by (simp add: readRemoteGames_def RemoteGames_def newGameArray_def observe_def)

lemma readLocalGames_frame:
  "gameCells m1 = gameCells m2 \<Longrightarrow> byteArrays m1 = byteArrays m2
   \<Longrightarrow> readLocalGames r m1 = readLocalGames r m2"
  by (simp add: readLocalGames_eq observe_frame [of m1 m2])

lemma readRemoteGames_frame:
  "gameCells m1 = gameCells m2 \<Longrightarrow> byteArrays m1 = byteArrays m2
   \<Longrightarrow> readRemoteGames r m1 = readRemoteGames r m2"
  by (simp add: readRemoteGames_eq observe_frame [of m1 m2])

lemma snapshot_fresh:
  "snapshot r m = (s, m') \<Longrightarrow>
     s = length (gameArrays m)
     \<and> gameArrays m' = gameArrays m @ [map (\<lambda>(key, p). gameCells m ! p) (games r)]
     \<and> gameCells m' = gameCells m \<and> byteArrays m' = byteArrays m"
  by (auto simp: snapshot_def newGameArray_def)

text \<open>
  Claim C2, as the code has it. The slice that \<open>Games\<close> returns, and the one a mutator
  hands to the change callback, is a newly allocated array holding copies of the stored
  \<open>Game\<close> structs. Whatever a caller then assigns to game slices, to whole elements or to
  fields of elements, in any number of steps, the next \<open>Games\<close>, \<open>LocalGames\<close>,
  \<open>RemoteGames\<close> and \<open>FindByHostCounter\<close> show the same structs and the same raw bytes
  as before. The copied structs carry the stored \<open>RawData\<close> references, so the bytes are
  shared.
\<close>

theorem snapshot_independent:
  assumes "Games r m = (s, m') \<or> notify r m = (Some s, m')"
  shows "s = length (gameArrays m)
     \<and> sliceGames m' (Some s) = map (\<lambda>(key, p). gameCells m ! p) (games r)
     \<and> readGames r (fold (\<lambda>(a, i, g). storeGame a i g) muts m') = readGames r m'
     \<and> readLocalGames r (fold (\<lambda>(a, i, g). storeGame a i g) muts m') = readLocalGames r m'
     \<and> readRemoteGames r (fold (\<lambda>(a, i, g). storeGame a i g) muts m') = readRemoteGames r m'
     \<and> readFind hc r (fold (\<lambda>(a, i, g). storeGame a i g) muts m') = readFind hc r m'"
proof -
  from assms have sn: "snapshot r m = (s, m')"
    by (auto simp: Games_def notify_def split: if_splits prod.splits)
  note f = snapshot_fresh [OF sn]
  have 1: "s = length (gameArrays m)" using f by simp
  have 2: "sliceGames m' (Some s) = map (\<lambda>(key, p). gameCells m ! p) (games r)"
    using f by (simp add: sliceGames_def)
  have 3: "readGames r (fold (\<lambda>(a, i, g). storeGame a i g) muts m') = readGames r m'"
    by (rule readGames_frame) (simp_all add: fold_storeGame_frame)
  have 4: "readFind hc r (fold (\<lambda>(a, i, g). storeGame a i g) muts m') = readFind hc r m'"
    by (rule readFind_frame) (simp_all add: fold_storeGame_frame)
  have 5: "readLocalGames r (fold (\<lambda>(a, i, g). storeGame a i g) muts m') = readLocalGames r m'"
    by (rule readLocalGames_frame) (simp_all add: fold_storeGame_frame)
  have 6: "readRemoteGames r (fold (\<lambda>(a, i, g). storeGame a i g) muts m') = readRemoteGames r m'"
    by (rule readRemoteGames_frame) (simp_all add: fold_storeGame_frame)
  show ?thesis using 1 2 3 4 5 6 by blast
qed

lemma exampleSnapshot_eq:
  "exampleSnapshot =
     (1, \<lparr>byteArrays = [[0xF7, 0x30, 0x06, 0x00, 0xE0, 0x17]],
          gameCells = [exampleGame\<lparr>FirstSeen := 100, LastSeen := 101\<rparr>],
          gameArrays = [[exampleGame\<lparr>FirstSeen := 100, LastSeen := 101\<rparr>],
                        [exampleGame\<lparr>FirstSeen := 100, LastSeen := 101\<rparr>]]\<rparr>)"
  by (simp add: exampleSnapshot_def exampleState_eq Games_def snapshot_def newGameArray_def)

lemma exampleFound_eq:
  "exampleFound =
     (Some 1, \<lparr>byteArrays = [[0xF7, 0x30, 0x06, 0x00, 0xE0, 0x17]],
          gameCells = [exampleGame\<lparr>FirstSeen := 100, LastSeen := 101\<rparr>,
                       exampleGame\<lparr>FirstSeen := 100, LastSeen := 101\<rparr>],
          gameArrays = [[exampleGame\<lparr>FirstSeen := 100, LastSeen := 101\<rparr>]]\<rparr>)"
  by (simp add: exampleFound_def exampleState_eq FindByHostCounter_def newGameCell_def
      exampleGame_def)

text \<open>
  The theorem at the example: the snapshot is array 1, and overwriting its element leaves
  the next read unchanged.
\<close>

theorem snapshot_independent_witness:
  "fst exampleSnapshot = 1
   \<and> readGames (fst exampleState)
        (fold (\<lambda>(a, i, g). storeGame a i g) [(1, 0, exampleGame\<lparr>PeerName := ''x''\<rparr>)]
           (snd exampleSnapshot))
     = readGames (fst exampleState) (snd exampleSnapshot)"
proof -
  have g: "Games (fst exampleState) (snd exampleState) = (fst exampleSnapshot, snd exampleSnapshot)
      \<or> notify (fst exampleState) (snd exampleState) = (Some (fst exampleSnapshot), snd exampleSnapshot)"
    by (simp add: exampleSnapshot_def)
  have a: "readGames (fst exampleState)
        (fold (\<lambda>(a, i, g). storeGame a i g) [(1, 0, exampleGame\<lparr>PeerName := ''x''\<rparr>)]
           (snd exampleSnapshot))
     = readGames (fst exampleState) (snd exampleSnapshot)"
    using snapshot_independent [OF g, of "[(1, 0, exampleGame\<lparr>PeerName := ''x''\<rparr>)]" 7]
    by (elim conjE)
  have b: "fst exampleSnapshot = 1" by (simp add: exampleSnapshot_eq)
  show ?thesis using a b by (intro conjI)
qed

text \<open>
  Claim C2 as stated fails: the element of the snapshot refers to byte array 0, the array
  the stored game refers to, and a write to its first byte changes what the next
  \<open>Games\<close> shows.
\<close>

theorem snapshot_shares_RawData:
  "RawData (sliceGames (snd exampleSnapshot) (Some (fst exampleSnapshot)) ! 0) = Some 0
   \<and> readGames (fst exampleState) (storeByte 0 0 0xFF (snd exampleSnapshot))
       \<noteq> readGames (fst exampleState) (snd exampleSnapshot)"
  by (simp add: exampleSnapshot_eq exampleState_eq readGames_eq sliceGames_def storeByte_def
      observe_def sliceBytes_def exampleGame_def)

text \<open>
  Claim C5 as stated fails in the word deep: the copy that \<open>FindByHostCounter\<close> returns
  refers to byte array 0, the array of the stored game, and a write to its first byte
  changes what the next \<open>Games\<close> shows.
\<close>

theorem found_copy_shares_RawData:
  "fst exampleFound = Some 1
   \<and> RawData (gameCells (snd exampleFound) ! 1) = Some 0
   \<and> readGames (fst exampleState) (storeByte 0 0 0xFF (snd exampleFound))
       \<noteq> readGames (fst exampleState) (snd exampleFound)"
  by (simp add: exampleFound_eq exampleState_eq readGames_eq storeByte_def
      observe_def sliceBytes_def exampleGame_def)

lemma findMatch_None:
  "(findMatch hc m xs = None)
   = (\<forall>(key, p)\<in>set xs. \<not> (Source (gameCells m ! p) = SourceRemote
                                \<and> HostCounter (Info (gameCells m ! p)) = hc))"
proof (induction xs)
  case Nil
  then show ?case by simp
next
  case (Cons x xs)
  obtain key p where x: "x = (key, p)" by (cases x)
  show ?case unfolding x using Cons.IH by (simp add: Let_def)
qed

lemma findMatch_Some:
  "findMatch hc m xs = Some g \<Longrightarrow>
     (\<exists>(key, p)\<in>set xs. gameCells m ! p = g) \<and> Source g = SourceRemote
     \<and> HostCounter (Info g) = hc"
proof (induction xs)
  case Nil
  then show ?case by simp
next
  case (Cons x xs)
  obtain key p where x: "x = (key, p)" by (cases x)
  show ?case
  proof (cases "Source (gameCells m ! p) = SourceRemote \<and> HostCounter (Info (gameCells m ! p)) = hc")
    case True
    with Cons.prems x have "g = gameCells m ! p" by simp
    with True x show ?thesis by auto
  next
    case False
    with Cons.prems x have "findMatch hc m xs = Some g" by auto
    from Cons.IH [OF this] x show ?thesis by auto
  qed
qed

lemma readGames_storeCell:
  assumes "\<forall>(key, p)\<in>set (games r). p < q"
  shows "readGames r (storeCell q g m) = readGames r m"
proof -
  have "\<And>key p. (key, p) \<in> set (games r) \<Longrightarrow> gameCells (storeCell q g m) ! p = gameCells m ! p"
    using assms by (auto simp: storeCell_def)
  moreover have "\<And>x. observe (storeCell q g m) x = observe m x"
    by (simp add: observe_def storeCell_def)
  ultimately show ?thesis by (auto simp: readGames_eq)
qed

text \<open>
  Claim C5, as the code has it. \<open>FindByHostCounter\<close> returns nothing exactly when no
  stored game is Remote with the given host counter, and then leaves the store as it was
  (in particular for host counter 0). Otherwise it returns the address of a newly
  allocated cell holding a copy of the struct of such a stored game: its source is Remote,
  never Local, and its host counter is the one asked for. Assigning to the returned
  struct leaves later reads of the registry unchanged; its \<open>RawData\<close> is the stored
  reference, so the bytes are shared.
\<close>

theorem FindByHostCounter_result:
  assumes "FindByHostCounter hc r m = (res, m')"
  shows "(res = None)
           = (\<forall>(key, p)\<in>set (games r). \<not> (Source (gameCells m ! p) = SourceRemote
                                    \<and> HostCounter (Info (gameCells m ! p)) = hc))
     \<and> (res = None \<longrightarrow> m' = m)
     \<and> (\<forall>q. res = Some q \<longrightarrow>
            q = length (gameCells m)
          \<and> m' = m\<lparr>gameCells := gameCells m @ [gameCells m' ! q]\<rparr>
          \<and> (\<exists>(key, p)\<in>set (games r). gameCells m ! p = gameCells m' ! q)
          \<and> Source (gameCells m' ! q) = SourceRemote
          \<and> Source (gameCells m' ! q) \<noteq> SourceLocal
          \<and> HostCounter (Info (gameCells m' ! q)) = hc
          \<and> ((\<forall>(key, p)\<in>set (games r). p < length (gameCells m))
               \<longrightarrow> readGames r (storeCell q g' m') = readGames r m'))"
proof (cases "findMatch hc m (games r)")
  case None
  with assms have "res = None" "m' = m" by (simp_all add: FindByHostCounter_def)
  with None findMatch_None [of hc m "games r"] show ?thesis by simp
next
  case (Some g)
  with assms have res: "res = Some (length (gameCells m))"
    and m': "m' = m\<lparr>gameCells := gameCells m @ [g]\<rparr>"
    by (simp_all add: FindByHostCounter_def newGameCell_def)
  have cell: "gameCells m' ! length (gameCells m) = g" by (simp add: m')
  note fm = findMatch_Some [OF Some]
  have a: "(res = None)
           = (\<forall>(key, p)\<in>set (games r). \<not> (Source (gameCells m ! p) = SourceRemote
                                    \<and> HostCounter (Info (gameCells m ! p)) = hc))"
    using Some res findMatch_None [of hc m "games r"] by simp
  have loc: "Source g \<noteq> SourceLocal"
    using fm by (simp add: SourceLocal_def SourceRemote_def)
  have st: "(\<forall>(key, p)\<in>set (games r). p < length (gameCells m))
               \<longrightarrow> readGames r (storeCell (length (gameCells m)) g' m') = readGames r m'"
    by (simp add: readGames_storeCell)
  show ?thesis using a res m' cell fm loc st by simp
qed

text \<open>
  The theorem at the example: host counter 7 is found in a new cell, host counter 0 is
  not found.
\<close>

theorem FindByHostCounter_result_witness:
  "fst exampleFound = Some 1
   \<and> Source (gameCells (snd exampleFound) ! 1) = SourceRemote
   \<and> HostCounter (Info (gameCells (snd exampleFound) ! 1)) = 7
   \<and> readGames (fst exampleState) (storeCell 1 (exampleGame\<lparr>PeerName := ''x''\<rparr>) (snd exampleFound))
       = readGames (fst exampleState) (snd exampleFound)
   \<and> fst (FindByHostCounter 0 (fst exampleState) (snd exampleState)) = None"
proof -
  have f: "FindByHostCounter 7 (fst exampleState) (snd exampleState)
           = (fst exampleFound, snd exampleFound)"
    by (simp add: exampleFound_def)
  have one: "fst exampleFound = Some 1" by (simp add: exampleFound_eq)
  have wf: "\<forall>(key, p)\<in>set (games (fst exampleState)). p < length (gameCells (snd exampleState))"
    by (simp add: exampleState_eq)
  from FindByHostCounter_result [OF f, of "exampleGame\<lparr>PeerName := ''x''\<rparr>"] one wf
  have a: "Source (gameCells (snd exampleFound) ! 1) = SourceRemote"
    and b: "HostCounter (Info (gameCells (snd exampleFound) ! 1)) = 7"
    and c: "readGames (fst exampleState) (storeCell 1 (exampleGame\<lparr>PeerName := ''x''\<rparr>) (snd exampleFound))
       = readGames (fst exampleState) (snd exampleFound)"
    by blast+
  have z: "FindByHostCounter 0 (fst exampleState) (snd exampleState)
           = (fst (FindByHostCounter 0 (fst exampleState) (snd exampleState)),
              snd (FindByHostCounter 0 (fst exampleState) (snd exampleState)))"
    by simp
  have no: "\<forall>(key, p)\<in>set (games (fst exampleState)).
              \<not> (Source (gameCells (snd exampleState) ! p) = SourceRemote
                  \<and> HostCounter (Info (gameCells (snd exampleState) ! p)) = 0)"
    by (simp add: exampleState_eq exampleGame_def)
  from FindByHostCounter_result [OF z] no
  have d: "fst (FindByHostCounter 0 (fst exampleState) (snd exampleState)) = None"
    by blast
  show ?thesis using one a b c d by (intro conjI)
qed

section \<open>The broadcaster\<close>

lemma upt_0_2: "[0..<2] = [0, 1::nat]"
  by (simp add: eval_nat_numeral)

lemma le_bytes_2: "le_bytes 2 n = [of_nat (n mod 256), of_nat (n div 2 ^ 8 mod 256)]"
  unfolding le_bytes_def upt_0_2 by simp

lemma le16: "[byte w, byte (drop_bit byteShift8 w)] = le_bytes 2 (unat (w::u16))"
  unfolding le_bytes_2 byteShift8_def byte_drop_bit
  by (simp only: byte_low)

lemma update_last_two:
  assumes "2 \<le> length xs"
  shows "xs[length xs - 2 := a, length xs - 2 + 1 := b] = take (length xs - 2) xs @ [a, b]"
proof (rule nth_equalityI)
  show "length (xs[length xs - 2 := a, length xs - 2 + 1 := b]) = length (take (length xs - 2) xs @ [a, b])"
    using assms by simp
next
  fix i assume "i < length (xs[length xs - 2 := a, length xs - 2 + 1 := b])"
  then have i: "i < length xs" by simp
  consider "i < length xs - 2" | "i = length xs - 2" | "i = length xs - 2 + 1"
    using i assms by linarith
  then show "xs[length xs - 2 := a, length xs - 2 + 1 := b] ! i = (take (length xs - 2) xs @ [a, b]) ! i"
  proof cases
    case 1
    then show ?thesis using i by (simp add: nth_append)
  next
    case 2
    then show ?thesis using i assms by (simp add: nth_append)
  next
    case 3
    then show ?thesis using i assms by (simp add: nth_append)
  qed
qed

lemma sendRawGameInfo_eq:
  assumes "validBytes m (RawData g)"
  shows "sendRawGameInfo port g m =
     (let raw = sliceBytes m (RawData g) in
      if length raw < 4 then ([], m)
      else let d = take (length raw - 2) raw @ le_bytes 2 (unat port)
           in ([d], m\<lparr>byteArrays := byteArrays m @ [d]\<rparr>))"
proof (cases "length (sliceBytes m (RawData g)) < 4")
  case True
  then show ?thesis by (simp add: sendRawGameInfo_def sliceLen_def minPacketSize_def)
next
  case False
  let ?raw = "sliceBytes m (RawData g)"
  let ?n = "length ?raw"
  let ?m1 = "m\<lparr>byteArrays := byteArrays m @ [replicate ?n 0]\<rparr>"
  have raw1: "sliceBytes ?m1 (RawData g) = ?raw"
    using assms by (auto simp: validBytes_def sliceBytes_def nth_append split: option.splits)
  have cp: "copyBytes (length (byteArrays m)) ?raw ?m1 = m\<lparr>byteArrays := byteArrays m @ [?raw]\<rparr>"
    by (simp add: copyBytes_def Let_def)
  have n2: "2 \<le> ?n" using False by simp
  have "sendRawGameInfo port g m =
      ([?raw[?n - 2 := byte port, ?n - 2 + 1 := byte (drop_bit byteShift8 port)]],
       m\<lparr>byteArrays := byteArrays m @ [?raw[?n - 2 := byte port, ?n - 2 + 1 := byte (drop_bit byteShift8 port)]]\<rparr>)"
    using False
    by (simp add: sendRawGameInfo_def sliceLen_def minPacketSize_def portFieldSize_def
        newByteArray_def raw1 cp storeByte_def Let_def)
  also have "?raw[?n - 2 := byte port, ?n - 2 + 1 := byte (drop_bit byteShift8 port)]
      = take (?n - 2) ?raw @ le_bytes 2 (unat port)"
    unfolding le16 [symmetric] by (rule update_last_two [OF n2])
  finally show ?thesis using False by (simp add: Let_def)
qed

text \<open>
  Claim C3. \<open>broadcastGames\<close> calls \<open>sendRawGameInfo\<close> for each Remote game, with the
  broadcaster's \<open>proxyPort\<close>. Every datagram it sends has the length of the game's raw
  bytes, agrees with them on all bytes but the last two, and ends in the port in
  little-endian. It sends one datagram, or none when there are fewer than four raw bytes.
  The stored raw bytes are unchanged: the store only gains one array.
\<close>

theorem broadcast_port_rewrite:
  assumes "validBytes m (RawData g)" and "sendRawGameInfo port g m = (out, m')"
  shows "(\<forall>d\<in>set out.
            length d = sliceLen m (RawData g)
          \<and> take (sliceLen m (RawData g) - 2) d
              = take (sliceLen m (RawData g) - 2) (sliceBytes m (RawData g))
          \<and> drop (sliceLen m (RawData g) - 2) d = le_bytes 2 (unat port))
     \<and> length out = (if sliceLen m (RawData g) < 4 then 0 else 1)
     \<and> sliceBytes m' (RawData g) = sliceBytes m (RawData g)
     \<and> take (length (byteArrays m)) (byteArrays m') = byteArrays m
     \<and> gameCells m' = gameCells m \<and> gameArrays m' = gameArrays m"
proof (cases "sliceLen m (RawData g) < 4")
  case True
  with assms have "out = []" "m' = m"
    by (simp_all add: sendRawGameInfo_eq sliceLen_def Let_def)
  with True show ?thesis by simp
next
  case False
  let ?raw = "sliceBytes m (RawData g)"
  let ?d = "take (length ?raw - 2) ?raw @ le_bytes 2 (unat port)"
  have eq: "sendRawGameInfo port g m = ([?d], m\<lparr>byteArrays := byteArrays m @ [?d]\<rparr>)"
    using False assms(1) by (simp add: sendRawGameInfo_eq sliceLen_def Let_def)
  have "(out, m') = ([?d], m\<lparr>byteArrays := byteArrays m @ [?d]\<rparr>)"
    unfolding assms(2) [symmetric] by (rule eq)
  then have out: "out = [?d]" and m': "m' = m\<lparr>byteArrays := byteArrays m @ [?d]\<rparr>"
    unfolding prod.inject by blast+
  from False have n: "2 \<le> length ?raw" by (simp add: sliceLen_def)
  have 1: "length ?d = length ?raw" using n by (simp add: length_le_bytes)
  have 2: "take (length ?raw - 2) ?d = take (length ?raw - 2) ?raw" by simp
  have 3: "drop (length ?raw - 2) ?d = le_bytes 2 (unat port)" using n by simp
  have 4: "sliceBytes m' (RawData g) = ?raw"
    using assms(1) by (auto simp: m' validBytes_def sliceBytes_def nth_append split: option.splits)
  show ?thesis using False 1 2 3 4 by (simp add: out m' sliceLen_def)
qed

text \<open>
  The theorem at the example, with port 0x1234: the datagram ends in 34 12 and the stored
  bytes still end in E0 17.
\<close>

theorem broadcast_port_rewrite_witness:
  "sendRawGameInfo 0x1234 exampleGame (snd exampleState)
     = ([[0xF7, 0x30, 0x06, 0x00, 0x34, 0x12]],
        snd exampleState\<lparr>byteArrays := byteArrays (snd exampleState) @ [[0xF7, 0x30, 0x06, 0x00, 0x34, 0x12]]\<rparr>)
   \<and> sliceBytes (snd (sendRawGameInfo 0x1234 exampleGame (snd exampleState))) (RawData exampleGame)
     = [0xF7, 0x30, 0x06, 0x00, 0xE0, 0x17]"
proof -
  have v: "validBytes (snd exampleState) (RawData exampleGame)"
    by (simp add: validBytes_def exampleGame_def exampleState_eq)
  have e: "sendRawGameInfo 0x1234 exampleGame (snd exampleState)
     = ([[0xF7, 0x30, 0x06, 0x00, 0x34, 0x12]],
        snd exampleState\<lparr>byteArrays := byteArrays (snd exampleState) @ [[0xF7, 0x30, 0x06, 0x00, 0x34, 0x12]]\<rparr>)"
    unfolding sendRawGameInfo_eq [OF v]
    by (simp add: Let_def le_bytes_2 exampleState_eq sliceBytes_def exampleGame_def)
  have raw: "sliceBytes (snd exampleState) (RawData exampleGame) = [0xF7, 0x30, 0x06, 0x00, 0xE0, 0x17]"
    by (simp add: exampleState_eq sliceBytes_def exampleGame_def)
  from broadcast_port_rewrite [OF v e]
  have "sliceBytes (snd exampleState\<lparr>byteArrays := byteArrays (snd exampleState) @ [[0xF7, 0x30, 0x06, 0x00, 0x34, 0x12]]\<rparr>) (RawData exampleGame)
     = sliceBytes (snd exampleState) (RawData exampleGame)"
    by (elim conjE)
  then show ?thesis by (simp add: e raw)
qed

lemma safeUint16_in_range: "0 \<le> n \<Longrightarrow> n \<le> 65535 \<Longrightarrow> uint (safeUint16 n) = n"
  by (simp add: safeUint16_def uint_word_of_int take_bit_int_eq_self)

lemma announceGames_keys:
  "fst (announceGames port gs cur m)
   = fold (\<lambda>g. AList.update (Key g) (HostCounter (Info g))) (remoteGames gs) cur"
  by (induction gs arbitrary: cur m) (auto simp: remoteGames_def split_def Let_def)

lemma fold_update_keys:
  "fst ` set (fold (\<lambda>g. AList.update (Key g) (HostCounter (Info g))) gs cur)
   = fst ` set cur \<union> Key ` set gs"
  by (induction gs arbitrary: cur) (auto simp: update_keys image_Un [symmetric] simp flip: set_map)

lemma fold_update_distinct:
  "distinct (map fst cur) \<Longrightarrow>
   distinct (map fst (fold (\<lambda>g. AList.update (Key g) (HostCounter (Info g))) gs cur))"
  by (induction gs arbitrary: cur) (auto simp: distinct_update)

lemma fold_update_map_of:
  "map_of (fold (\<lambda>g. AList.update (Key g) (HostCounter (Info g))) gs cur)
   = map_of cur ++ map_of (rev (map (\<lambda>g. (Key g, HostCounter (Info g))) gs))"
  by (induction gs arbitrary: cur) (auto simp: update_conv' map_add_upd_left fun_eq_iff map_add_def split: option.splits)

lemma cancelGames_eq:
  "distinct (map fst prev) \<Longrightarrow>
   cancelGames prev cur
   = map (\<lambda>key. sendDecreateGame (the (map_of prev key)))
       (filter (\<lambda>key. map_of cur key = None) (map fst prev))"
proof (induction prev)
  case Nil
  then show ?case by (simp add: cancelGames_def)
next
  case (Cons x prev)
  obtain k hc where x: "x = (k, hc)" by (cases x)
  from Cons.prems x have k: "k \<notin> fst ` set prev" and d: "distinct (map fst prev)" by auto
  have rest: "map (\<lambda>key. sendDecreateGame (the (map_of ((k, hc) # prev) key)))
                (filter (\<lambda>key. map_of cur key = None) (map fst prev))
              = map (\<lambda>key. sendDecreateGame (the (map_of prev key)))
                (filter (\<lambda>key. map_of cur key = None) (map fst prev))"
    using k by (intro map_cong) auto
  have "cancelGames (x # prev) cur
        = (if map_of cur k = None then [sendDecreateGame hc] else []) @ cancelGames prev cur"
    by (simp add: cancelGames_def x)
  then show ?case using Cons.IH [OF d] rest by (simp add: x)
qed

lemma map_of_None_keys: "(map_of xs k = None) = (k \<notin> fst ` set xs)"
  by (simp add: map_of_eq_None_iff)

lemma announceGames_out:
  "d \<in> set (fst (snd (announceGames port gs cur m))) \<Longrightarrow>
   \<exists>g\<in>set (remoteGames gs).
      d = sendRefreshGame (HostCounter (Info g)) (SlotsUsed (Info g)) (SlotsAvailable (Info g))
      \<or> (\<exists>m1. d \<in> set (fst (sendRawGameInfo port g m1)))"
proof (induction gs arbitrary: cur m)
  case Nil
  then show ?case by simp
next
  case (Cons g gs)
  show ?case
  proof (cases "Source g = SourceRemote")
    case False
    with Cons.prems have "d \<in> set (fst (snd (announceGames port gs cur m)))" by simp
    from Cons.IH [OF this] False show ?thesis by (simp add: remoteGames_def)
  next
    case True
    let ?cur = "AList.update (Key g) (HostCounter (Info g)) cur"
    let ?m1 = "snd (sendRawGameInfo port g m)"
    from True Cons.prems
    consider "d \<in> set (fst (sendRawGameInfo port g m))"
      | "d = sendRefreshGame (HostCounter (Info g)) (SlotsUsed (Info g)) (SlotsAvailable (Info g))"
      | "d \<in> set (fst (snd (announceGames port gs ?cur ?m1)))"
      by (auto simp: split_def Let_def)
    then show ?thesis
    proof cases
      case 1
      with True show ?thesis by (auto simp: remoteGames_def)
    next
      case 2
      with True show ?thesis by (auto simp: remoteGames_def)
    next
      case 3
      from Cons.IH [OF this] True show ?thesis by (auto simp: remoteGames_def)
    qed
  qed
qed

text \<open>
  Claim C4. What a tick sends is the announcements (the raw game info and the refresh of
  each Remote game, nothing else) followed by the cancellations. The cancellations are one
  \<open>DecreateGame\<close> for each removed key, each key once, carrying the host counter recorded
  for that key on the previous tick; the removed keys are exactly the previous keys that
  are not keys of a current Remote game. After the tick the recorded keys are those of the
  current Remote games, each with the host counter of the last game of that key, so the
  next tick cancels against this tick's set.
\<close>

theorem cancellation_completeness:
  assumes "distinct (map fst (previousGameKeys b))"
      and "broadcastGames b m = (out, b', m')"
  shows "out = fst (snd (announceGames (proxyPort b) (sliceGames m (games_Broadcaster b)) [] m))
               @ map (\<lambda>key. sendDecreateGame (the (map_of (previousGameKeys b) key)))
                   (removedKeys b m)
     \<and> distinct (removedKeys b m)
     \<and> set (removedKeys b m)
         = fst ` set (previousGameKeys b)
           - Key ` set (remoteGames (sliceGames m (games_Broadcaster b)))
     \<and> (\<forall>d\<in>set (fst (snd (announceGames (proxyPort b) (sliceGames m (games_Broadcaster b)) [] m))).
           \<exists>g\<in>set (remoteGames (sliceGames m (games_Broadcaster b))).
             d = sendRefreshGame (HostCounter (Info g)) (SlotsUsed (Info g)) (SlotsAvailable (Info g))
             \<or> (\<exists>m1. d \<in> set (fst (sendRawGameInfo (proxyPort b) g m1))))
     \<and> distinct (map fst (previousGameKeys b'))
     \<and> map_of (previousGameKeys b')
         = map_of (rev (map (\<lambda>g. (Key g, HostCounter (Info g)))
                          (remoteGames (sliceGames m (games_Broadcaster b)))))"
proof -
  let ?gs = "sliceGames m (games_Broadcaster b)"
  let ?a = "announceGames (proxyPort b) ?gs [] m"
  let ?cur = "fold (\<lambda>g. AList.update (Key g) (HostCounter (Info g))) (remoteGames ?gs) []"
  have cur: "fst ?a = ?cur" by (rule announceGames_keys)
  from assms(2) have out: "out = fst (snd ?a) @ cancelGames (previousGameKeys b) (fst ?a)"
    and b': "previousGameKeys b' = fst ?a"
    by (auto simp: broadcastGames_def split_def Let_def)
  have keys: "fst ` set ?cur = Key ` set (remoteGames ?gs)"
    by (simp add: fold_update_keys)
  have rm: "filter (\<lambda>key. map_of ?cur key = None) (map fst (previousGameKeys b)) = removedKeys b m"
    by (simp add: removedKeys_def map_of_None_keys keys)
  have 1: "out = fst (snd ?a) @ map (\<lambda>key. sendDecreateGame (the (map_of (previousGameKeys b) key)))
                   (removedKeys b m)"
    by (simp add: out cur cancelGames_eq [OF assms(1)] rm)
  have 2: "distinct (removedKeys b m)"
    using assms(1) by (simp add: removedKeys_def)
  have 3: "set (removedKeys b m) = fst ` set (previousGameKeys b) - Key ` set (remoteGames ?gs)"
    by (auto simp: removedKeys_def)
  have 4: "\<forall>d\<in>set (fst (snd ?a)).
           \<exists>g\<in>set (remoteGames ?gs).
             d = sendRefreshGame (HostCounter (Info g)) (SlotsUsed (Info g)) (SlotsAvailable (Info g))
             \<or> (\<exists>m1. d \<in> set (fst (sendRawGameInfo (proxyPort b) g m1)))"
    using announceGames_out by blast
  have 5: "distinct (map fst (previousGameKeys b'))"
    by (simp add: b' cur fold_update_distinct)
  have 6: "map_of (previousGameKeys b')
         = map_of (rev (map (\<lambda>g. (Key g, HostCounter (Info g))) (remoteGames ?gs)))"
    by (simp add: b' cur fold_update_map_of)
  show ?thesis using 1 2 3 4 5 6 by (intro conjI)
qed

lemma exampleBroadcaster_tick:
  "broadcastGames exampleBroadcaster (snd exampleState)
   = ([[0xF7, 0x30, 0x06, 0x00, 0x34, 0x12],
       [0xF7, 0x32, 0x10, 0x00, 7, 0, 0, 0, 1, 0, 0, 0, 7, 0, 0, 0],
       [0xF7, 0x33, 0x08, 0x00, 9, 0, 0, 0]],
      exampleBroadcaster\<lparr>previousGameKeys := [(''100.64.0.2:g1'', 7)]\<rparr>,
      snd exampleState\<lparr>byteArrays := byteArrays (snd exampleState)
                                          @ [[0xF7, 0x30, 0x06, 0x00, 0x34, 0x12]]\<rparr>)"
proof -
  let ?g = "exampleGame\<lparr>FirstSeen := 100, LastSeen := 101\<rparr>"
  have gs: "sliceGames (snd exampleState) (games_Broadcaster exampleBroadcaster) = [?g]"
    by (simp add: sliceGames_def exampleBroadcaster_def exampleState_eq)
  have v: "validBytes (snd exampleState) (RawData ?g)"
    by (simp add: validBytes_def exampleGame_def exampleState_eq)
  have raw: "sendRawGameInfo 0x1234 ?g (snd exampleState)
     = ([[0xF7, 0x30, 0x06, 0x00, 0x34, 0x12]],
        snd exampleState\<lparr>byteArrays := byteArrays (snd exampleState) @ [[0xF7, 0x30, 0x06, 0x00, 0x34, 0x12]]\<rparr>)"
    unfolding sendRawGameInfo_eq [OF v]
    by (simp add: Let_def le_bytes_2 exampleState_eq sliceBytes_def exampleGame_def)
  have src: "Source ?g = SourceRemote" by (simp add: exampleGame_def)
  have key: "Key ?g = ''100.64.0.2:g1''"
    by (simp add: Key_def exampleGame_def SourceLocal_def SourceRemote_def)
  have hc: "HostCounter (Info exampleGame) = 7" "SlotsUsed (Info exampleGame) = 1"
    "SlotsAvailable (Info exampleGame) = 7"
    by (simp_all add: exampleGame_def)
  have rf: "sendRefreshGame 7 1 7 = [0xF7, 0x32, 0x10, 0x00, 7, 0, 0, 0, 1, 0, 0, 0, 7, 0, 0, 0]"
    by (simp add: sendRefreshGame_def byte_def byteShift8_def byteShift16_def byteShift24_def)
  have dc: "sendDecreateGame 9 = [0xF7, 0x33, 0x08, 0x00, 9, 0, 0, 0]"
    by (simp add: sendDecreateGame_def byte_def byteShift8_def byteShift16_def byteShift24_def)
  have an: "announceGames 0x1234 [?g] [] (snd exampleState)
     = ([(''100.64.0.2:g1'', 7)],
        [[0xF7, 0x30, 0x06, 0x00, 0x34, 0x12], [0xF7, 0x32, 0x10, 0x00, 7, 0, 0, 0, 1, 0, 0, 0, 7, 0, 0, 0]],
        snd exampleState\<lparr>byteArrays := byteArrays (snd exampleState) @ [[0xF7, 0x30, 0x06, 0x00, 0x34, 0x12]]\<rparr>)"
    by (simp add: src key hc raw rf del: One_nat_def)
  have pp: "proxyPort exampleBroadcaster = 0x1234"
    and pk: "previousGameKeys exampleBroadcaster = [(''100.64.0.2:g1'', 7), (''100.64.0.3:g2'', 9)]"
    by (simp_all add: exampleBroadcaster_def)
  show ?thesis
    unfolding broadcastGames_def gs pp pk an
    by (simp add: cancelGames_def dc)
qed

text \<open>
  The theorem at the example: the game still present is announced, and the one removed
  key gets its \<open>DecreateGame\<close> with host counter 9, last.
\<close>

theorem cancellation_completeness_witness:
  "fst (broadcastGames exampleBroadcaster (snd exampleState))
   = fst (snd (announceGames 0x1234 [exampleGame\<lparr>FirstSeen := 100, LastSeen := 101\<rparr>] []
                 (snd exampleState)))
     @ [sendDecreateGame 9]
   \<and> removedKeys exampleBroadcaster (snd exampleState) = [''100.64.0.3:g2'']"
proof -
  have d: "distinct (map fst (previousGameKeys exampleBroadcaster))"
    by (simp add: exampleBroadcaster_def)
  have t: "broadcastGames exampleBroadcaster (snd exampleState)
           = (fst (broadcastGames exampleBroadcaster (snd exampleState)),
              fst (snd (broadcastGames exampleBroadcaster (snd exampleState))),
              snd (snd (broadcastGames exampleBroadcaster (snd exampleState))))"
    by simp
  have gs: "sliceGames (snd exampleState) (games_Broadcaster exampleBroadcaster)
            = [exampleGame\<lparr>FirstSeen := 100, LastSeen := 101\<rparr>]"
    by (simp add: sliceGames_def exampleBroadcaster_def exampleState_eq)
  have rk: "removedKeys exampleBroadcaster (snd exampleState) = [''100.64.0.3:g2'']"
    unfolding removedKeys_def gs
    by (simp add: remoteGames_def exampleBroadcaster_def exampleGame_def
        Key_def SourceLocal_def SourceRemote_def)
  have pp: "proxyPort exampleBroadcaster = 0x1234"
    by (simp add: exampleBroadcaster_def)
  have m9: "the (map_of (previousGameKeys exampleBroadcaster) ''100.64.0.3:g2'') = 9"
    by (simp add: exampleBroadcaster_def)
  from cancellation_completeness [OF d t]
  have "fst (broadcastGames exampleBroadcaster (snd exampleState))
        = fst (snd (announceGames (proxyPort exampleBroadcaster)
                      (sliceGames (snd exampleState) (games_Broadcaster exampleBroadcaster)) []
                      (snd exampleState)))
          @ map (\<lambda>key. sendDecreateGame (the (map_of (previousGameKeys exampleBroadcaster) key)))
              (removedKeys exampleBroadcaster (snd exampleState))"
    by (elim conjE)
  then show ?thesis unfolding gs rk pp by (simp add: m9 rk)
qed

section \<open>The probe engine\<close>

text \<open>
  Claim C9. With a stored version whose \<open>Version\<close> is 0, a probe cycle sends nothing,
  whether the ticker, \<open>Refresh\<close> or \<open>OnPeersChanged\<close> starts it. Once a version with a
  non-zero \<open>Version\<close> is set, each cycle sends one \<open>SearchGame\<close> to 127.0.0.1:6112 and
  then one to port 6112 of each online peer, in the order of the peer list;
  \<open>OnPeersChanged\<close> probes the peers it was given.
\<close>

theorem version_zero_suppresses_probing:
  "(Version (version mgr) = 0 \<longrightarrow>
       probeTick mgr = [] \<and> Refresh mgr = [] \<and> snd (OnPeersChanged ps mgr) = [])
   \<and> (Version v \<noteq> 0 \<longrightarrow>
       probeTick (SetVersion v mgr)
         = Send (UDPAddr (Addr ''127.0.0.1'') 6112) (SearchGame v 0)
           # map (\<lambda>peer. Send (UDPAddr (IP peer) 6112) (SearchGame v 0))
               (filter Online (peers mgr))
     \<and> Refresh (SetVersion v mgr) = probeTick (SetVersion v mgr)
     \<and> snd (OnPeersChanged ps (SetVersion v mgr))
         = Send (UDPAddr (Addr ''127.0.0.1'') 6112) (SearchGame v 0)
           # map (\<lambda>peer. Send (UDPAddr (IP peer) 6112) (SearchGame v 0)) (filter Online ps))"
proof -
  have c: "\<And>v qs. concat (map (\<lambda>peer. if Online peer then probePeer (IP peer) v else []) qs)
        = map (\<lambda>peer. Send (UDPAddr (IP peer) 6112) (SearchGame v 0)) (filter Online qs)"
    subgoal for v qs by (induction qs) (simp_all add: probePeer_def DefaultPort_def)
    done
  show ?thesis
    by (simp add: probeTick_def Refresh_def OnPeersChanged_def probeAllPeers_def SetVersion_def
        Let_def c probeLocal_def DefaultPort_def)
qed

text \<open>
  The theorem at the example: nothing is sent at version 0; at version 26 the loopback
  and the one online peer are queried.
\<close>

theorem version_zero_suppresses_probing_witness:
  "probeTick exampleManager = []
   \<and> probeTick (SetVersion \<lparr>Product = 0x57335850, Version = 26\<rparr> exampleManager)
     = [Send (UDPAddr (Addr ''127.0.0.1'') 6112) (SearchGame \<lparr>Product = 0x57335850, Version = 26\<rparr> 0),
        Send (UDPAddr (Addr ''100.64.0.2'') 6112) (SearchGame \<lparr>Product = 0x57335850, Version = 26\<rparr> 0)]"
proof -
  have z: "Version (version exampleManager) = 0" by (simp add: exampleManager_def)
  have n: "Version \<lparr>Product = 0x57335850, Version = 26\<rparr> \<noteq> (0::u32)" by simp
  note t = version_zero_suppresses_probing
             [of exampleManager "[]" "\<lparr>Product = 0x57335850, Version = 26\<rparr>"]
  from t z have a: "probeTick exampleManager = []" by blast
  from t n have "probeTick (SetVersion \<lparr>Product = 0x57335850, Version = 26\<rparr> exampleManager)
         = Send (UDPAddr (Addr ''127.0.0.1'') 6112) (SearchGame \<lparr>Product = 0x57335850, Version = 26\<rparr> 0)
           # map (\<lambda>peer. Send (UDPAddr (IP peer) 6112) (SearchGame \<lparr>Product = 0x57335850, Version = 26\<rparr> 0))
               (filter Online (peers exampleManager))"
    by blast
  then have b: "probeTick (SetVersion \<lparr>Product = 0x57335850, Version = 26\<rparr> exampleManager)
     = [Send (UDPAddr (Addr ''127.0.0.1'') 6112) (SearchGame \<lparr>Product = 0x57335850, Version = 26\<rparr> 0),
        Send (UDPAddr (Addr ''100.64.0.2'') 6112) (SearchGame \<lparr>Product = 0x57335850, Version = 26\<rparr> 0)]"
    by (simp add: exampleManager_def)
  show ?thesis using a b by (intro conjI)
qed

section \<open>The TCP join proxy\<close>

lemma remoteWrites_append: "remoteWrites (xs @ ys) = remoteWrites xs @ remoteWrites ys"
  by (induction xs rule: remoteWrites.induct) simp_all

lemma remoteWrites_logs: "remoteWrites (map (\<lambda>g. Log l s) xs) = []"
  by (induction xs) simp_all

lemma readJoinPacket_Join:
  assumes "\<not> setDeadlineErr env" and "firstRead env = Some delivered"
      and "\<not> clearDeadlineErr env"
      and "Deserialize (take 512 delivered) = Some (Join hc name)"
  shows "readJoinPacket Deserialize env
         = (Inr (hc, name, take 512 delivered),
            [SetReadDeadline, ReadClient, ClearReadDeadline, Log LevelDebug ''received Join packet''])"
  using assms by (simp add: readJoinPacket_def maxJoinPacketSize_def Let_def)

text \<open>
  Whatever the outcomes of the I/O calls, the handler writes to an origin at most once, and
  then what it read from the client.
\<close>

lemma remote_write_is_initial_packet:
  assumes "handleConnection Deserialize env r m = (trace, m')"
  shows "remoteWrites trace = []
     \<or> (\<exists>delivered. firstRead env = Some delivered
                      \<and> remoteWrites trace = [take 512 delivered])"
proof (cases "readJoinPacket Deserialize env")
  case (Pair res io)
  have io: "remoteWrites io = []"
    using Pair by (auto simp: readJoinPacket_def Let_def split: if_splits option.splits Packet.splits)
  show ?thesis
  proof (cases res)
    case (Inl err)
    with Pair assms io show ?thesis
      by (auto simp: handleConnection_def remoteWrites_append)
  next
    case (Inr x)
    obtain hc name pkt where x: "x = (hc, name, pkt)" by (cases x)
    from Pair Inr x obtain delivered where d: "firstRead env = Some delivered"
      and pkt: "pkt = take 512 delivered"
      by (auto simp: readJoinPacket_def Let_def maxJoinPacketSize_def
              split: if_splits option.splits Packet.splits)
    show ?thesis
    proof (cases "fst (FindByHostCounter hc r m)")
      case None
      with Pair Inr x assms io have "remoteWrites trace = []"
        by (auto simp: handleConnection_def Let_def split_def remoteWrites_append remoteWrites_logs)
      then show ?thesis by simp
    next
      case (Some p)
      with Pair Inr x assms io d pkt show ?thesis
        by (auto simp: handleConnection_def Let_def split_def remoteWrites_append split: if_splits)
    qed
  qed
qed

text \<open>
  Claim C6. When the first read succeeds, its bytes (at most 512) decode as a \<open>Join\<close>,
  the host counter is that of a stored Remote game and the dial succeeds, the handler
  writes to the origin exactly once, before the relay starts, and what it writes is the
  byte sequence read from the client: the first 512 bytes delivered, all of them when no
  more than 512 were delivered.
\<close>

theorem join_forwarded_verbatim:
  assumes "\<not> setDeadlineErr env" and "firstRead env = Some delivered"
      and "\<not> clearDeadlineErr env"
      and "Deserialize (take 512 delivered) = Some (Join hc name)"
      and "\<exists>(key, p)\<in>set (games r). Source (gameCells m ! p) = SourceRemote
                                     \<and> HostCounter (Info (gameCells m ! p)) = hc"
      and "\<not> dialErr env"
      and "handleConnection Deserialize env r m = (trace, m')"
  shows "remoteWrites trace = [take 512 delivered]
     \<and> remoteWrites (takeWhile (\<lambda>e. e \<noteq> Relay) trace) = [take 512 delivered]
     \<and> (length delivered \<le> 512 \<longrightarrow> remoteWrites trace = [delivered])
     \<and> (\<not> writeErr env \<longrightarrow> Relay \<in> set trace)"
proof -
  note rj = readJoinPacket_Join [where Deserialize = Deserialize, OF assms(1-4)]
  from assms(5) have "findMatch hc m (games r) \<noteq> None"
    using findMatch_None [of hc m "games r"] by auto
  then obtain g where g: "findMatch hc m (games r) = Some g" by auto
  then have f: "FindByHostCounter hc r m
                = (Some (length (gameCells m)), m\<lparr>gameCells := gameCells m @ [g]\<rparr>)"
    by (simp add: FindByHostCounter_def newGameCell_def)
  let ?pre = "[Log LevelInfo ''received TCP connection'', SetReadDeadline, ReadClient,
               ClearReadDeadline, Log LevelDebug ''received Join packet'',
               Log LevelInfo ''parsed Join packet'', Log LevelInfo ''found remote game'',
               Dial (AddrString (PeerIP g)) (GamePort (Info g)),
               Log LevelInfo ''proxying connection'', WriteRemote (take 512 delivered)]"
  have tr: "trace = ?pre @ (if writeErr env
                            then [Log LevelError ''failed to forward Join packet'', CloseRemote, CloseClient]
                            else [Relay, CloseRemote, CloseClient])"
    using assms(6,7) by (simp add: handleConnection_def rj f Let_def split: if_splits)
  show ?thesis by (simp add: tr)
qed

text \<open>
  Claim C7. When the first packet decodes as a \<open>Join\<close> whose host counter is that of no
  stored Remote game, the handler dials nothing, writes nothing to an origin and starts
  no relay (the only place where bytes go back to the client); it logs a warning and then
  closes the client, once, as its last step.
\<close>

theorem unknown_game_closes_client:
  assumes "\<not> setDeadlineErr env" and "firstRead env = Some delivered"
      and "\<not> clearDeadlineErr env"
      and "Deserialize (take 512 delivered) = Some (Join hc name)"
      and "\<forall>(key, p)\<in>set (games r). \<not> (Source (gameCells m ! p) = SourceRemote
                                        \<and> HostCounter (Info (gameCells m ! p)) = hc)"
      and "handleConnection Deserialize env r m = (trace, m')"
  shows "filter isOutbound trace = []
     \<and> remoteWrites trace = []
     \<and> (\<exists>pre. trace = pre @ [Log LevelWarn ''no remote game found for HostCounter'', CloseClient]
              \<and> CloseClient \<notin> set pre)"
proof -
  note rj = readJoinPacket_Join [where Deserialize = Deserialize, OF assms(1-4)]
  from assms(5) have "findMatch hc m (games r) = None"
    using findMatch_None [of hc m "games r"] by auto
  then have f: "FindByHostCounter hc r m = (None, m)"
    by (simp add: FindByHostCounter_def)
  let ?pre = "[Log LevelInfo ''received TCP connection'', SetReadDeadline, ReadClient,
               ClearReadDeadline, Log LevelDebug ''received Join packet'',
               Log LevelInfo ''parsed Join packet'']
              @ map (\<lambda>g. Log LevelInfo ''registry game'') (gameArrays (snd (Games r m)) ! fst (Games r m))"
  have h: "handleConnection Deserialize env r m
           = (?pre @ [Log LevelWarn ''no remote game found for HostCounter'', CloseClient],
              snd (Games r m))"
    by (simp add: handleConnection_def rj f Let_def split_def)
  from assms(6) [unfolded h]
  have tr: "trace = ?pre @ [Log LevelWarn ''no remote game found for HostCounter'', CloseClient]"
    by (elim Pair_inject) (erule sym)
  have 1: "filter isOutbound trace = []" unfolding tr by (simp add: filter_empty_conv)
  have 2: "remoteWrites trace = []"
    unfolding tr by (simp add: remoteWrites_append remoteWrites_logs)
  have 3: "CloseClient \<notin> set ?pre" by auto
  show ?thesis using 1 2 3 tr by blast
qed

lemma exampleEnv_Join:
  "exampleDeserialize (take 512 [0xF7, 0x1E, 0x08, 0x00, hc, 0x00, 0x00, 0x00])
   = Some (Join (ucast hc) [])"
proof -
  have "(of_nat (unat hc) :: u32) = ucast hc" by simp
  then show ?thesis by (simp add: exampleDeserialize_def le_nat_def)
qed

text \<open>
  The theorem at the example: a \<open>Join\<close> for host counter 7 reaches the origin byte for
  byte.
\<close>

theorem join_forwarded_verbatim_witness:
  "remoteWrites (fst (handleConnection exampleDeserialize (exampleEnv 7)
                        (fst exampleState) (snd exampleState)))
   = [[0xF7, 0x1E, 0x08, 0x00, 7, 0x00, 0x00, 0x00]]"
proof -
  let ?t = "handleConnection exampleDeserialize (exampleEnv 7) (fst exampleState) (snd exampleState)"
  have 1: "\<not> setDeadlineErr (exampleEnv 7)" by (simp add: exampleEnv_def)
  have 2: "firstRead (exampleEnv 7) = Some [0xF7, 0x1E, 0x08, 0x00, 7, 0x00, 0x00, 0x00]"
    by (simp add: exampleEnv_def)
  have 3: "\<not> clearDeadlineErr (exampleEnv 7)" by (simp add: exampleEnv_def)
  have 4: "exampleDeserialize (take 512 [0xF7, 0x1E, 0x08, 0x00, 7, 0x00, 0x00, 0x00])
           = Some (Join 7 [])"
    using exampleEnv_Join [of 7] by simp
  have 5: "\<exists>(key, p)\<in>set (games (fst exampleState)).
             Source (gameCells (snd exampleState) ! p) = SourceRemote
             \<and> HostCounter (Info (gameCells (snd exampleState) ! p)) = 7"
    by (simp add: exampleState_eq exampleGame_def)
  have 6: "\<not> dialErr (exampleEnv 7)" by (simp add: exampleEnv_def)
  have 7: "?t = (fst ?t, snd ?t)" by simp
  from join_forwarded_verbatim [where Deserialize = exampleDeserialize, OF 1 2 3 4 5 6 7]
  have "remoteWrites (fst ?t) = [take 512 [0xF7, 0x1E, 0x08, 0x00, 7, 0x00, 0x00, 0x00]]"
    by (elim conjE)
  then show ?thesis by simp
qed

text \<open>
  The theorem at the example: a \<open>Join\<close> for host counter 99 ends with the client closed
  and nothing sent out.
\<close>

theorem unknown_game_closes_client_witness:
  "filter isOutbound (fst (handleConnection exampleDeserialize (exampleEnv 99)
                             (fst exampleState) (snd exampleState))) = []
   \<and> last (fst (handleConnection exampleDeserialize (exampleEnv 99)
                   (fst exampleState) (snd exampleState))) = CloseClient"
proof -
  let ?t = "handleConnection exampleDeserialize (exampleEnv 99) (fst exampleState) (snd exampleState)"
  have 1: "\<not> setDeadlineErr (exampleEnv 99)" by (simp add: exampleEnv_def)
  have 2: "firstRead (exampleEnv 99) = Some [0xF7, 0x1E, 0x08, 0x00, 99, 0x00, 0x00, 0x00]"
    by (simp add: exampleEnv_def)
  have 3: "\<not> clearDeadlineErr (exampleEnv 99)" by (simp add: exampleEnv_def)
  have 4: "exampleDeserialize (take 512 [0xF7, 0x1E, 0x08, 0x00, 99, 0x00, 0x00, 0x00])
           = Some (Join 99 [])"
    using exampleEnv_Join [of 99] by simp
  have 5: "\<forall>(key, p)\<in>set (games (fst exampleState)).
             \<not> (Source (gameCells (snd exampleState) ! p) = SourceRemote
                 \<and> HostCounter (Info (gameCells (snd exampleState) ! p)) = 99)"
    by (simp add: exampleState_eq exampleGame_def)
  have 6: "?t = (fst ?t, snd ?t)" by simp
  note u = unknown_game_closes_client [where Deserialize = exampleDeserialize, OF 1 2 3 4 5 6]
  from u have a: "filter isOutbound (fst ?t) = []" by (elim conjE)
  from u obtain pre where
    "fst ?t = pre @ [Log LevelWarn ''no remote game found for HostCounter'', CloseClient]"
    by blast
  then have b: "last (fst ?t) = CloseClient" by simp
  show ?thesis using a b by (intro conjI)
qed

end
